theory Spec2Isabelle
  imports Main "HOL-Library.AList" "HOL-Library.Char_ord" "HOL-Library.List_Lexorder"
begin

section \<open>Strings\<close>

text \<open>
  A Python \<open>str\<close> is modelled as a \<open>string\<close> whose characters are the code points
  U+0000 to U+00FF. \<open>str.lower\<close> maps the upper-case letters of that range (A to Z, and
  U+00C0 to U+00DE without the multiplication sign U+00D7) to the letter 32 places later and
  leaves every other character alone.
\<close>

definition lower_char :: "char \<Rightarrow> char" where
  "lower_char c =
     (let n = (of_char c :: nat)
      in if (65 \<le> n \<and> n \<le> 90) \<or> (192 \<le> n \<and> n \<le> 222 \<and> n \<noteq> 215)
         then char_of (n + 32) else c)"

definition lower :: "string \<Rightarrow> string" where
  "lower s = map lower_char s"

text \<open>\<open>sep.join(parts)\<close> for a list of strings.\<close>

fun join :: "string \<Rightarrow> string list \<Rightarrow> string" where
  "join sep [] = []"
| "join sep [x] = x"
| "join sep (x # y # ys) = x @ sep @ join sep (y # ys)"

section \<open>The endpoint resolver (location_service_endpoint_resolver.py)\<close>

subsection \<open>Values of a decoded JSON body\<close>

text \<open>
  \<open>json.loads\<close> yields \<open>None\<close>, booleans, numbers, strings, lists and dicts (a number is
  an integer here). A dict is an association list read with \<open>map_of\<close>; \<open>d.get(k)\<close> is
  \<open>None\<close>, that is \<open>JNull\<close>, for a key the dict lacks.
\<close>

datatype json =
    JNull
  | JBool bool
  | JInt int
  | JStr string
  | JList "json list"
  | JDict "(string \<times> json) list"

text \<open>Python's truth value of an object, as \<open>if x\<close>, \<open>not x\<close> and \<open>x or y\<close> read it.\<close>

fun truthy :: "json \<Rightarrow> bool" where
  "truthy JNull = False"
| "truthy (JBool b) = b"
| "truthy (JInt i) = (i \<noteq> 0)"
| "truthy (JStr s) = (s \<noteq> [])"
| "truthy (JList xs) = (xs \<noteq> [])"
| "truthy (JDict kvs) = (kvs \<noteq> [])"

definition py_or :: "json \<Rightarrow> json \<Rightarrow> json" where
  "py_or a b = (if truthy a then a else b)"

definition dict_get :: "(string \<times> json) list \<Rightarrow> string \<Rightarrow> json" where
  "dict_get d k = (case map_of d k of None \<Rightarrow> JNull | Some v \<Rightarrow> v)"

subsection \<open>Exceptions\<close>

text \<open>
  \<open>ServerException\<close> carries its \<open>error_code\<close> and \<open>error_message\<close> (either may be
  \<open>None\<close>). \<open>OtherException\<close> stands for any exception that is not a
  \<open>ServerException\<close> and that the describe-endpoint call, the decoding of its content
  or \<open>json.loads\<close> raises; the remaining constructors are the errors the scan of the
  body raises on a value of the wrong shape.
\<close>

datatype exn =
    ServerException "string option" "string option"
  | NoCredentialsException
  | OtherException string
  | KeyError string
  | TypeError
  | AttributeError

text \<open>\<open>obj[k]\<close> for a string key: only a dict holding the key answers.\<close>

fun subscript :: "json \<Rightarrow> string \<Rightarrow> exn + json" where
  "subscript (JDict d) k = (case map_of d k of None \<Rightarrow> Inl (KeyError k) | Some v \<Rightarrow> Inr v)"
| "subscript _ k = Inl TypeError"

text \<open>
  The items \<open>for item in obj\<close> runs through: the elements of a list, the keys of a dict,
  the one-character strings of a string; anything else is not iterable.
\<close>

fun py_iter :: "json \<Rightarrow> exn + json list" where
  "py_iter (JList xs) = Inr xs"
| "py_iter (JDict d) = Inr (map (\<lambda>kv. JStr (fst kv)) d)"
| "py_iter (JStr s) = Inr (map (\<lambda>c. JStr [c]) s)"
| "py_iter _ = Inl TypeError"

subsection \<open>Requests, the external call and the resolver's state\<close>

text \<open>
  The request class is not part of the sources: \<open>resolve\<close> reads the five attributes
  below. \<open>location_service_code\<close> may be \<open>None\<close>.
\<close>

record resolve_request =
  product_code :: string
  product_code_lower :: string
  location_service_code :: "string option"
  region_id :: string
  endpoint_type :: string

text \<open>
  \<open>DescribeEndpointCaller(config, credentials_provider).fetch\<close> is the external call. It
  is a parameter of the model: a function of the four keyword arguments
  (\<open>region_id\<close>, \<open>endpoint_type\<close>, \<open>location_service_code\<close>, \<open>location_endpoint\<close>)
  that either raises or returns a context, of which the resolver reads only the decoded
  content: \<open>Inl e\<close> when \<open>decode\<close> or \<open>json.loads\<close> raises \<open>e\<close>, \<open>Inr body\<close>
  otherwise.
\<close>

type_synonym fetch_args = "string \<times> string \<times> string \<times> string"

datatype fetch_result = Raises exn | Context "exn + json"

type_synonym fetch = "fetch_args \<Rightarrow> fetch_result"

text \<open>
  The resolver object. \<open>endpoints_data\<close> comes from \<open>EndpointResolverBase\<close>; a cached
  \<open>None\<close> is \<open>Some JNull\<close>, a key never stored is \<open>None\<close>. \<open>fetch_calls\<close> is not a
  field of the class: it logs the arguments of every describe-endpoint call made, so that
  "no call is made" can be stated.
\<close>

record resolver =
  location_service_endpoint :: string
  invalid_product_codes :: "string set"
  invalid_region_ids :: "string set"
  valid_product_codes :: "string set"
  valid_region_ids :: "string set"
  endpoints_data :: "string \<rightharpoonup> json"
  fetch_calls :: "fetch_args list"

definition DEFAULT_LOCATION_SERVICE_ENDPOINT :: string where
  "DEFAULT_LOCATION_SERVICE_ENDPOINT = ''location-readonly.aliyuncs.com''"

definition init_resolver :: resolver where
  "init_resolver =
     \<lparr>location_service_endpoint = DEFAULT_LOCATION_SERVICE_ENDPOINT,
      invalid_product_codes = {},
      invalid_region_ids = {},
      valid_product_codes = {},
      valid_region_ids = {},
      endpoints_data = Map.empty,
      fetch_calls = []\<rparr>"

definition set_location_service_endpoint :: "string \<Rightarrow> resolver \<Rightarrow> resolver" where
  "set_location_service_endpoint endpoint s = s\<lparr>location_service_endpoint := endpoint\<rparr>"

text \<open>
  Modelled from the spec: \<open>put_endpoint_entry\<close> is a method of \<open>EndpointResolverBase\<close>,
  which is not among the sources; section 4.5 gives it as \<open>store(key, endpoint|null)\<close> on
  a key-to-value store.
\<close>

definition put_endpoint_entry :: "string \<Rightarrow> json \<Rightarrow> resolver \<Rightarrow> resolver" where
  "put_endpoint_entry key endpoint s = s\<lparr>endpoints_data := (endpoints_data s)(key \<mapsto> endpoint)\<rparr>"

text \<open>\<open>self.endpoints_data.get(key)\<close>.\<close>

definition endpoints_get :: "resolver \<Rightarrow> string \<Rightarrow> json" where
  "endpoints_get s key = (case endpoints_data s key of None \<Rightarrow> JNull | Some v \<Rightarrow> v)"

subsection \<open>The resolution key\<close>

definition make_endpoint_entry_key :: "string \<Rightarrow> string \<Rightarrow> string \<Rightarrow> string \<Rightarrow> string" where
  "make_endpoint_entry_key product_code' location_service_code' region_id' endpoint_type' =
     join ''.'' [lower product_code', location_service_code', lower region_id', endpoint_type']"

text \<open>
  \<open>get_endpoint_key_from_request\<close> is reached only with a location-service code that is
  a non-empty string; \<open>join\<close> on \<open>None\<close> raises \<open>TypeError\<close>.
\<close>

definition get_endpoint_key_from_request :: "resolve_request \<Rightarrow> exn + string" where
  "get_endpoint_key_from_request request =
     (case location_service_code request of
        None \<Rightarrow> Inl TypeError
      | Some code \<Rightarrow>
          Inr (make_endpoint_entry_key (product_code request) code
                 (region_id request) (endpoint_type request)))"

subsection \<open>The miss path\<close>

text \<open>
  The loop over the endpoint list. It returns \<open>found_flag\<close>; an item that is not a dict
  has no \<open>get\<close>.
\<close>

fun scan_endpoints :: "json list \<Rightarrow> string \<Rightarrow> resolve_request \<Rightarrow> resolver \<Rightarrow> (exn + bool) \<times> resolver" where
  "scan_endpoints [] key raw_request s = (Inr False, s)"
| "scan_endpoints (item # items) key raw_request s =
     (case item of
        JDict d \<Rightarrow>
          (let service_code = py_or (dict_get d ''ServiceCode'') (dict_get d ''SerivceCode'')
           in if truthy service_code \<and> dict_get d ''Type'' = JStr (endpoint_type raw_request)
              then (Inr True, put_endpoint_entry key (dict_get d ''Endpoint'') s)
              else scan_endpoints items key raw_request s)
      | _ \<Rightarrow> (Inl AttributeError, s))"

definition fetch_args_of :: "resolve_request \<Rightarrow> resolver \<Rightarrow> fetch_args" where
  "fetch_args_of raw_request s =
     (region_id raw_request, endpoint_type raw_request,
      (case location_service_code raw_request of None \<Rightarrow> [] | Some c \<Rightarrow> c),
      location_service_endpoint s)"

definition call_location_service :: "fetch \<Rightarrow> string \<Rightarrow> resolve_request \<Rightarrow> resolver \<Rightarrow> (exn + unit) \<times> resolver" where
  "call_location_service fetch key raw_request s =
     (let args = fetch_args_of raw_request s;
          s0 = s\<lparr>fetch_calls := fetch_calls s @ [args]\<rparr>
      in case fetch args of
           Raises e \<Rightarrow>
             (case e of
                ServerException error_code error_message \<Rightarrow>
                  if Some ''InvalidRegionId'' = error_code \<and>
                     Some ''The specified region does not exist.'' = error_message
                  then (Inr (),
                        put_endpoint_entry key JNull
                          (s0\<lparr>invalid_region_ids :=
                                insert (region_id raw_request) (invalid_region_ids s0)\<rparr>))
                  else if Some ''Illegal Parameter'' = error_code \<and>
                          Some ''Please check the parameters'' = error_message
                  then (Inr (),
                        put_endpoint_entry key JNull
                          (s0\<lparr>invalid_product_codes :=
                                insert (product_code_lower raw_request) (invalid_product_codes s0)\<rparr>))
                  else (Inl e, s0)
              | _ \<Rightarrow> (Inl e, s0))
         | Context content \<Rightarrow>
             (let s1 = s0\<lparr>valid_product_codes :=
                            insert (product_code_lower raw_request) (valid_product_codes s0)\<rparr>;
                  s2 = s1\<lparr>valid_region_ids :=
                            insert (region_id raw_request) (valid_region_ids s1)\<rparr>
              in case content of
                   Inl e \<Rightarrow> (Inl e, s2)
                 | Inr body \<Rightarrow>
                     (case subscript body ''Endpoints'' of
                        Inl e \<Rightarrow> (Inl e, s2)
                      | Inr endpoints \<Rightarrow>
                          (case subscript endpoints ''Endpoint'' of
                             Inl e \<Rightarrow> (Inl e, s2)
                           | Inr endpoint \<Rightarrow>
                               (case py_iter endpoint of
                                  Inl e \<Rightarrow> (Inl e, s2)
                                | Inr items \<Rightarrow>
                                    (case scan_endpoints items key raw_request s2 of
                                       (Inl e, s3) \<Rightarrow> (Inl e, s3)
                                     | (Inr found_flag, s3) \<Rightarrow>
                                         if \<not> found_flag
                                         then (Inr (), put_endpoint_entry key JNull s3)
                                         else (Inr (), s3)))))))"

definition get_endpoint_from_location_service :: "fetch \<Rightarrow> string \<Rightarrow> resolve_request \<Rightarrow> resolver \<Rightarrow> (exn + json) \<times> resolver" where
  "get_endpoint_from_location_service fetch key request s =
     (if endpoints_data s key \<noteq> None then (Inr (endpoints_get s key), s)
      else case call_location_service fetch key request s of
             (Inl e, s') \<Rightarrow> (Inl e, s')
           | (Inr _, s') \<Rightarrow> (Inr (endpoints_get s' key), s'))"

subsection \<open>resolve\<close>

text \<open>
  \<open>not request.location_service_code\<close> holds for \<open>None\<close> and for the empty string. The
  lock of the source is created by the call that takes it and guards nothing in a
  sequential run.
\<close>

definition resolve :: "fetch \<Rightarrow> resolve_request \<Rightarrow> resolver \<Rightarrow> (exn + json) \<times> resolver" where
  "resolve fetch request s =
     (if location_service_code request = None \<or> location_service_code request = Some []
      then (Inr JNull, s)
      else if product_code_lower request \<in> invalid_product_codes s then (Inr JNull, s)
      else if region_id request \<in> invalid_region_ids s then (Inr JNull, s)
      else case get_endpoint_key_from_request request of
             Inl e \<Rightarrow> (Inl e, s)
           | Inr key \<Rightarrow>
               (case endpoints_data s key of
                  Some endpoint \<Rightarrow> (Inr endpoint, s)
                | None \<Rightarrow> get_endpoint_from_location_service fetch key request s))"

definition is_product_code_valid :: "resolve_request \<Rightarrow> resolver \<Rightarrow> bool" where
  "is_product_code_valid request s =
     (if location_service_code request = None \<or> location_service_code request = Some []
      then False
      else product_code_lower request \<notin> invalid_product_codes s)"

definition is_region_id_valid :: "resolve_request \<Rightarrow> resolver \<Rightarrow> bool" where
  "is_region_id_valid request s =
     (if location_service_code request = None \<or> location_service_code request = Some []
      then False
      else region_id request \<notin> invalid_region_ids s)"

text \<open>A run of \<open>resolve\<close> calls on one resolver, each with its own behaviour of the
  external call; the caller keeps the resolver whatever a call returns or raises.\<close>

fun resolve_all :: "(fetch \<times> resolve_request) list \<Rightarrow> resolver \<Rightarrow> resolver" where
  "resolve_all [] s = s"
| "resolve_all ((fetch, request) # rest) s = resolve_all rest (snd (resolve fetch request s))"

section \<open>The request signers (composer.py)\<close>

subsection \<open>Python values, dicts and string operations\<close>

text \<open>
  The value of a query or body parameter: \<open>None\<close>, a string or an integer, with
  \<open>str(v)\<close>. A dict with string keys is an association list in insertion order, its keys
  distinct; \<open>d[k] = v\<close> is \<open>AList.update k v d\<close>, which overwrites in place or appends.
\<close>

datatype pyval = VNone | VStr string | VInt int

fun str_nat :: "nat \<Rightarrow> string" where
  "str_nat n =
     (if n < 10 then [char_of (48 + n)]
      else str_nat (n div 10) @ [char_of (48 + n mod 10)])"

declare str_nat.simps [simp del]

fun py_str :: "pyval \<Rightarrow> string" where
  "py_str VNone = ''None''"
| "py_str (VStr s) = s"
| "py_str (VInt i) = (if i < 0 then ''-'' @ str_nat (nat (- i)) else str_nat (nat i))"

definition str_opt :: "string option \<Rightarrow> string" where
  "str_opt v = (case v of None \<Rightarrow> ''None'' | Some s \<Rightarrow> s)"

text \<open>\<open>d.update(other)\<close>.\<close>

definition dict_update :: "('k \<times> 'v) list \<Rightarrow> ('k \<times> 'v) list \<Rightarrow> ('k \<times> 'v) list" where
  "dict_update other d = fold (\<lambda>kv. AList.update (fst kv) (snd kv)) other d"

text \<open>\<open>sorted(iteritems(d), key=lambda q: q[0])\<close>: a stable sort by key, strings compared
  code point by code point.\<close>

definition sorted_items :: "(string \<times> 'v) list \<Rightarrow> (string \<times> 'v) list" where
  "sorted_items d = sort_key fst d"

text \<open>
  \<open>s.upper()\<close>: the lower-case letters of the range (a to z, and U+00E0 to U+00FE without
  the division sign U+00F7) go to the letter 32 places earlier, and the sharp s U+00DF
  becomes \<open>SS\<close>. The upper-case forms of the micro sign U+00B5 and of U+00FF are U+039C
  and U+0178, outside the range of the model: these two characters are left as they are, and
  a method that holds one of them is outside the model.
\<close>

definition upper_char :: "char \<Rightarrow> string" where
  "upper_char c =
     (let n = (of_char c :: nat)
      in if (97 \<le> n \<and> n \<le> 122) \<or> (224 \<le> n \<and> n \<le> 254 \<and> n \<noteq> 247)
         then [char_of (n - 32)]
         else if n = 223 then ''SS'' else [c])"

definition upper :: "string \<Rightarrow> string" where
  "upper s = concat (map upper_char s)"

definition startswith :: "string \<Rightarrow> string \<Rightarrow> bool" where
  "startswith s pre = (take (length pre) s = pre)"

definition endswith :: "string \<Rightarrow> string \<Rightarrow> bool" where
  "endswith s suf = (length suf \<le> length s \<and> drop (length s - length suf) s = suf)"

text \<open>\<open>s.find(sub) >= 0\<close>: \<open>sub\<close> occurs in \<open>s\<close>.\<close>

fun contains :: "string \<Rightarrow> string \<Rightarrow> bool" where
  "contains [] sub = (sub = [])"
| "contains (c # cs) sub = (startswith (c # cs) sub \<or> contains cs sub)"

text \<open>\<open>s.replace(old, new)\<close>: the occurrences of \<open>old\<close> found from the left, not
  overlapping; an empty \<open>old\<close> matches before every character and at the end.\<close>

function replace :: "string \<Rightarrow> string \<Rightarrow> string \<Rightarrow> string" where
  "replace old new s =
     (if old = [] then new @ concat (map (\<lambda>c. c # new) s)
      else if s = [] then []
      else if startswith s old then new @ replace old new (drop (length old) s)
      else hd s # replace old new (tl s))"
  by pat_completeness auto
termination
  by (relation "measure (\<lambda>(old, new, s). length s)") auto

declare replace.simps [simp del]

text \<open>\<open>s.rsplit(sep, 1)\<close> for a one-character separator: a split at the last
  occurrence, if there is one.\<close>

definition rsplit1 :: "string \<Rightarrow> char \<Rightarrow> string list" where
  "rsplit1 s sep =
     (if sep \<in> set s
      then [rev (tl (dropWhile (\<lambda>c. c \<noteq> sep) (rev s))), rev (takeWhile (\<lambda>c. c \<noteq> sep) (rev s))]
      else [s])"

subsection \<open>Percent-encoding (the Python 3 standard library)\<close>

text \<open>
  \<open>urlencode\<close> and \<open>pathname2url\<close> are imported from the standard library (through
  \<open>alibabacloud.compat\<close> and the vendored \<open>six\<close>); they are modelled as Python 3.7 and
  later define them, \<open>pathname2url\<close> as on a POSIX system, where it is \<open>quote\<close> with
  \<open>/\<close> safe. \<open>quote\<close> keeps the letters, the digits, the characters
  \<open>_ . - ~\<close> and those of \<open>safe\<close>, and writes every other character as the \<open>%XX\<close> of
  each byte of its UTF-8 encoding.
\<close>

definition always_safe :: "char \<Rightarrow> bool" where
  "always_safe c =
     (let n = (of_char c :: nat)
      in (65 \<le> n \<and> n \<le> 90) \<or> (97 \<le> n \<and> n \<le> 122) \<or> (48 \<le> n \<and> n \<le> 57)
         \<or> c = CHR ''_'' \<or> c = CHR ''.'' \<or> c = CHR ''-'' \<or> c = CHR ''~'')"

definition utf8 :: "char \<Rightarrow> nat list" where
  "utf8 c =
     (let n = (of_char c :: nat)
      in if n < 128 then [n] else [192 + n div 64, 128 + n mod 64])"

definition hex_digit :: "nat \<Rightarrow> char" where
  "hex_digit d = (if d < 10 then char_of (48 + d) else char_of (55 + d))"

definition percent :: "nat \<Rightarrow> string" where
  "percent b = [CHR ''%'', hex_digit (b div 16), hex_digit (b mod 16)]"

definition quote :: "string \<Rightarrow> string \<Rightarrow> string" where
  "quote s safe =
     concat (map (\<lambda>c. if always_safe c \<or> c \<in> set safe then [c]
                       else concat (map percent (utf8 c))) s)"

definition quote_plus :: "string \<Rightarrow> string" where
  "quote_plus s =
     (if CHR '' '' \<in> set s then replace '' '' ''+'' (quote s '' '') else quote s [])"

definition urlencode :: "(string \<times> pyval) list \<Rightarrow> string" where
  "urlencode query =
     join ''&'' (map (\<lambda>kv. quote_plus (fst kv) @ ''='' @ quote_plus (py_str (snd kv))) query)"

definition pathname2url :: "string \<Rightarrow> string" where
  "pathname2url pathname = quote pathname ''/''"

subsection \<open>Credentials, requests and the signing algorithm\<close>

record credentials =
  access_key_id :: "string option"
  access_key_secret :: string
  security_token :: "string option"
  bearer_token :: "string option"

text \<open>The attributes of the request the signers read; \<open>req_method\<close>,
  \<open>req_headers\<close>, \<open>req_query_params\<close>, \<open>req_body_params\<close> and \<open>req_content\<close>
  are the source's \<open>method\<close>, \<open>_headers\<close>, \<open>_query_params\<close>, \<open>_body_params\<close>
  and \<open>_content\<close>.\<close>

record api_request =
  req_method :: string
  uri_pattern :: string
  path_params :: "(string \<times> string) list"
  action_name :: string
  req_headers :: "(string \<times> string) list"
  req_query_params :: "(string \<times> pyval) list"
  req_body_params :: "(string \<times> pyval) list"
  req_content :: "string option"

text \<open>
  The signing algorithm object (\<open>alibabacloud.signer.algorithm\<close>; the constructors
  receive it already instantiated, \<open>ShaHmac1\<close> when none is chosen) and the helpers
  \<open>md5_sum\<close> and \<open>FormatType.map_format_to_accept\<close> are not among the sources: they are
  parameters. The clock (\<open>get_rfc_2616_date\<close>, \<open>time.strftime\<close>) and \<open>get_uuid\<close> are
  read by the code; what they return is an argument of the function that reads them.
\<close>

record algorithm =
  signer_name :: string
  signer_type :: string
  signer_version :: string
  sign_string :: "string \<Rightarrow> string \<Rightarrow> string"

record helpers =
  md5_sum :: "string \<Rightarrow> string"
  map_format_to_accept :: "string \<Rightarrow> string"

subsection \<open>ROASigner\<close>

record ROASigner =
  roa_credentials :: credentials
  roa_request :: api_request
  roa_region_id :: pyval
  roa_version :: string
  roa_signer :: algorithm
  roa_headers :: "(string \<times> string) list"
  roa_uri :: string

definition prepare_headers :: "helpers \<Rightarrow> credentials option \<Rightarrow> api_request \<Rightarrow> pyval \<Rightarrow> string \<Rightarrow> exn + (string \<times> string) list" where
  "prepare_headers h creds request region version =
     (case creds of
        None \<Rightarrow> Inl NoCredentialsException
      | Some c \<Rightarrow>
          (let headers0 = req_headers request;
               headers1 = AList.update ''x-acs-version'' version headers0;
               headers2 = AList.update ''x-acs-region-id'' (py_str region) headers1;
               headers3 = (case req_content request of
                             None \<Rightarrow> headers2
                           | Some content \<Rightarrow> AList.update ''Content-MD5'' (md5_sum h content) headers2);
               headers4 = (case security_token c of
                             None \<Rightarrow> headers3
                           | Some t \<Rightarrow> AList.update ''x-acs-security-token'' t headers3);
               headers5 = (case bearer_token c of
                             None \<Rightarrow> headers4
                           | Some t \<Rightarrow> AList.update ''x-acs-bearer-token'' t headers4)
           in Inr headers5))"

definition replace_occupied_parameters :: "api_request \<Rightarrow> string" where
  "replace_occupied_parameters request =
     fold (\<lambda>kv result. replace (''['' @ fst kv @ '']'') (snd kv) result)
       (path_params request) (uri_pattern request)"

definition ROASigner_init :: "helpers \<Rightarrow> credentials option \<Rightarrow> api_request \<Rightarrow> pyval \<Rightarrow> string \<Rightarrow> algorithm \<Rightarrow> exn + ROASigner" where
  "ROASigner_init h creds request region version signer =
     (case prepare_headers h creds request region version of
        Inl e \<Rightarrow> Inl e
      | Inr headers \<Rightarrow>
          (case creds of
             None \<Rightarrow> Inl NoCredentialsException
           | Some c \<Rightarrow>
               Inr \<lparr>roa_credentials = c, roa_request = request, roa_region_id = region,
                    roa_version = version, roa_signer = signer, roa_headers = headers,
                    roa_uri = replace_occupied_parameters request\<rparr>))"

text \<open>\<open>_refresh_sign_parameters\<close> writes into \<open>self._headers\<close> itself and returns it
  (\<open>self._headers\<close> is the dict that \<open>_prepare_headers\<close> built, so the fresh dict of
  the source's second line is never taken); \<open>date\<close> is what \<open>get_rfc_2616_date()\<close>
  returns at this call.\<close>

definition refresh_sign_parameters :: "helpers \<Rightarrow> string \<Rightarrow> ROASigner \<Rightarrow> ROASigner" where
  "refresh_sign_parameters h date self =
     (let parameters0 = roa_headers self;
          parameters1 = AList.update ''Date'' date parameters0;
          parameters2 = AList.update ''Accept'' (map_format_to_accept h ''JSON'') parameters1;
          parameters3 = AList.update ''x-acs-signature-method'' (signer_name (roa_signer self)) parameters2;
          parameters4 = AList.update ''x-acs-signature-version'' (signer_version (roa_signer self)) parameters3
      in self\<lparr>roa_headers := parameters4\<rparr>)"

definition build_canonical_headers :: "(string \<times> string) list \<Rightarrow> string \<Rightarrow> string" where
  "build_canonical_headers headers header_begin =
     (let unsort_map =
            fold (\<lambda>kv m. if contains (lower (fst kv)) header_begin
                          then AList.update (lower (fst kv)) (snd kv) m else m) headers [];
          sort_map = sorted_items unsort_map
      in concat (map (\<lambda>kv. fst kv @ '':'' @ snd kv @ [CHR 0x0A]) sort_map))"

text \<open>\<open>_build_canonical_resource\<close> writes into the \<open>queries\<close> dict it is given: it
  returns the dict as it leaves it, and the string.\<close>

definition build_canonical_resource :: "string \<Rightarrow> (string \<times> pyval) list \<Rightarrow> (string \<times> pyval) list \<times> string" where
  "build_canonical_resource uri queries =
     (let uri_parts = rsplit1 uri CHR ''?'';
          queries1 = (if length uri_parts > 1 then AList.update (uri_parts ! 1) VNone queries
                      else queries);
          query_builder0 = uri_parts ! 0;
          sorted_map = sorted_items queries1;
          query_builder1 = (if length sorted_map > 0 then query_builder0 @ ''?'' else query_builder0);
          query_builder2 =
            query_builder1 @
            concat (map (\<lambda>kv. fst kv @ (case snd kv of VNone \<Rightarrow> [] | v \<Rightarrow> ''='' @ py_str v) @ ''&'')
                      sorted_map);
          query_builder3 = (if endswith query_builder2 ''&'' then butlast query_builder2
                            else query_builder2)
      in (queries1, query_builder3))"

definition interesting_headers :: "string list" where
  "interesting_headers = [''Accept'', ''Content-MD5'', ''Content-Type'', ''Date'']"

text \<open>The property \<open>signature\<close>: the canonical string, and the signer with the header
  mapping and the request's query parameters as the evaluation leaves them.\<close>

definition roa_signature :: "helpers \<Rightarrow> string \<Rightarrow> ROASigner \<Rightarrow> string \<times> ROASigner" where
  "roa_signature h date self =
     (let self1 = refresh_sign_parameters h date self;
          headers = roa_headers self1;
          sign_to_string0 = upper (req_method (roa_request self1)) @ [CHR 0x0A];
          sign_to_string1 =
            sign_to_string0 @
            concat (map (\<lambda>ih. (case map_of headers ih of None \<Rightarrow> [] | Some v \<Rightarrow> v) @ [CHR 0x0A])
                      interesting_headers);
          sign_to_string2 = sign_to_string1 @ build_canonical_headers headers ''x-acs-'';
          res = build_canonical_resource (roa_uri self1) (req_query_params (roa_request self1));
          self2 = self1\<lparr>roa_request := (roa_request self1)\<lparr>req_query_params := fst res\<rparr>\<rparr>
      in (sign_to_string2 @ snd res, self2))"

text \<open>The property \<open>headers\<close>.\<close>

definition roa_headers_property :: "helpers \<Rightarrow> string \<Rightarrow> ROASigner \<Rightarrow> (string \<times> string) list \<times> ROASigner" where
  "roa_headers_property h date self =
     (let sig = roa_signature h date self;
          self1 = snd sig;
          signature = sign_string (roa_signer self1) (fst sig) (access_key_secret (roa_credentials self1));
          headers = AList.update ''Authorization''
                      (''acs '' @ str_opt (access_key_id (roa_credentials self1)) @ '':'' @ signature)
                      (roa_headers self1)
      in (headers, self1\<lparr>roa_headers := headers\<rparr>))"

text \<open>The property \<open>params\<close>.\<close>

definition roa_params :: "ROASigner \<Rightarrow> string" where
  "roa_params self =
     (let param0 = roa_uri self;
          param1 = (if \<not> endswith param0 ''?'' then param0 @ ''?'' else param0);
          param2 = param1 @ urlencode (req_query_params (roa_request self))
      in if endswith param2 ''?'' then butlast param2 else param2)"

subsection \<open>RPCSigner\<close>

record RPCSigner =
  rpc_credentials :: credentials
  rpc_request :: api_request
  rpc_region_id :: pyval
  rpc_version :: string
  rpc_signer :: algorithm
  parameters :: "(string \<times> pyval) list"

text \<open>\<open>timestamp\<close> is what \<open>time.strftime(FORMAT_ISO_8601, time.gmtime())\<close> returns
  and \<open>uuid\<close> what \<open>helper.get_uuid()\<close> returns at this call.\<close>

definition canonicalized_query_string :: "string \<Rightarrow> string \<Rightarrow> credentials option \<Rightarrow> api_request \<Rightarrow> string \<Rightarrow> algorithm \<Rightarrow> exn + (string \<times> pyval) list" where
  "canonicalized_query_string timestamp uuid creds request version signer =
     (case creds of
        None \<Rightarrow> Inl NoCredentialsException
      | Some c \<Rightarrow>
          (let p0 = req_query_params request;
               p1 = AList.update ''Version'' (VStr version) p0;
               p2 = AList.update ''Action'' (VStr (action_name request)) p1;
               p3 = AList.update ''Format'' (VStr ''JSON'') p2;
               p4 = AList.update ''Timestamp'' (VStr timestamp) p3;
               p5 = AList.update ''SignatureMethod'' (VStr (signer_name signer)) p4;
               p6 = AList.update ''SignatureType'' (VStr (signer_type signer)) p5;
               p7 = AList.update ''SignatureVersion'' (VStr (signer_version signer)) p6;
               p8 = AList.update ''SignatureNonce'' (VStr uuid) p7;
               p9 = (case access_key_id c of
                       None \<Rightarrow> p8
                     | Some k \<Rightarrow> AList.update ''AccessKeyId'' (VStr k) p8)
           in Inr p9))"

definition RPCSigner_init :: "string \<Rightarrow> string \<Rightarrow> credentials option \<Rightarrow> api_request \<Rightarrow> pyval \<Rightarrow> string \<Rightarrow> algorithm \<Rightarrow> exn + RPCSigner" where
  "RPCSigner_init timestamp uuid creds request region version signer =
     (case canonicalized_query_string timestamp uuid creds request version signer of
        Inl e \<Rightarrow> Inl e
      | Inr ps \<Rightarrow>
          (case creds of
             None \<Rightarrow> Inl NoCredentialsException
           | Some c \<Rightarrow>
               Inr \<lparr>rpc_credentials = c, rpc_request = request, rpc_region_id = region,
                    rpc_version = version, rpc_signer = signer, parameters = ps\<rparr>))"

definition pop_standard_urlencode :: "string \<Rightarrow> string" where
  "pop_standard_urlencode query =
     (let ret0 = replace ''+'' ''%20'' query;
          ret1 = replace ''*'' ''%2A'' ret0;
          ret2 = replace ''%7E'' ''~'' ret1
      in ret2)"

definition calc_signature :: "string \<Rightarrow> (string \<times> pyval) list \<Rightarrow> string" where
  "calc_signature method' params =
     (let sorted_parameters = sorted_items params;
          sorted_query_string = pop_standard_urlencode (urlencode sorted_parameters);
          canonicalized = pop_standard_urlencode (pathname2url sorted_query_string);
          string_to_sign = method' @ ''&%2F&'' @ canonicalized
      in string_to_sign)"

text \<open>The parameter mapping the property \<open>signature\<close> signs: \<open>self.parameters\<close>, updated
  in place with the body parameters and the tokens.\<close>

definition merged_parameters :: "RPCSigner \<Rightarrow> (string \<times> pyval) list" where
  "merged_parameters self =
     (let q0 = dict_update (req_body_params (rpc_request self)) (parameters self);
          q1 = (case security_token (rpc_credentials self) of
                  None \<Rightarrow> q0
                | Some t \<Rightarrow> AList.update ''SecurityToken'' (VStr t) q0);
          q2 = (case bearer_token (rpc_credentials self) of
                  None \<Rightarrow> q1
                | Some t \<Rightarrow> AList.update ''BearerToken'' (VStr t) q1)
      in q2)"

definition rpc_signature :: "RPCSigner \<Rightarrow> string \<times> RPCSigner" where
  "rpc_signature self =
     (let ps = merged_parameters self
      in (calc_signature (req_method (rpc_request self)) ps, self\<lparr>parameters := ps\<rparr>))"

text \<open>The property \<open>params\<close>.\<close>

definition rpc_params :: "RPCSigner \<Rightarrow> string \<times> RPCSigner" where
  "rpc_params self =
     (let sig = rpc_signature self;
          self1 = snd sig;
          signature = sign_string (rpc_signer self1) (fst sig)
                        (access_key_secret (rpc_credentials self1) @ ''&'');
          ps = AList.update ''Signature'' (VStr signature) (parameters self1)
      in (''?'' @ urlencode ps, self1\<lparr>parameters := ps\<rparr>))"

text \<open>The property \<open>headers\<close>.\<close>

definition rpc_headers :: "RPCSigner \<Rightarrow> (string \<times> string) list" where
  "rpc_headers self = req_headers (rpc_request self)"

section \<open>Notions of the specification, and example inputs\<close>

text \<open>
  An entry of the endpoint list is taken when it is a dict with a true (non-empty)
  service code under one of the two spellings and with the requested type.
\<close>

definition entry_matches :: "string \<Rightarrow> json \<Rightarrow> bool" where
  "entry_matches etype item =
     (case item of
        JDict d \<Rightarrow>
          (truthy (dict_get d ''ServiceCode'') \<or> truthy (dict_get d ''SerivceCode''))
          \<and> dict_get d ''Type'' = JStr etype
      | _ \<Rightarrow> False)"

definition first_match_endpoint :: "string \<Rightarrow> json list \<Rightarrow> json" where
  "first_match_endpoint etype items =
     (case find (entry_matches etype) items of
        Some (JDict d) \<Rightarrow> dict_get d ''Endpoint''
      | _ \<Rightarrow> JNull)"

definition is_dict :: "json \<Rightarrow> bool" where
  "is_dict item = (case item of JDict d \<Rightarrow> True | _ \<Rightarrow> False)"

text \<open>A reply of the location service around a list of entries.\<close>

definition reply_body :: "json list \<Rightarrow> json" where
  "reply_body items =
     JDict [(''RequestId'', JStr ''A4B1C7D2-0E36-4F58-9A6B-3C5D7E9F1A2B''),
            (''Endpoints'', JDict [(''Endpoint'', JList items)]),
            (''Success'', JBool True)]"

text \<open>Entries as the location service sends them, with the misspelt field, followed by
  an entry that is no object.\<close>

definition ecs_items :: "json list" where
  "ecs_items =
     [JDict [(''SerivceCode'', JStr ''ecs''), (''Type'', JStr ''innerAPI''),
             (''Endpoint'', JStr ''ecs-inner.aliyuncs.com'')],
      JDict [(''SerivceCode'', JStr ''ecs''), (''Type'', JStr ''openAPI''),
             (''Endpoint'', JStr ''ecs.aliyuncs.com'')],
      JNull]"

text \<open>An entry that carries the field \<open>ServiceCode\<close>, with the empty string.\<close>

definition empty_code_items :: "json list" where
  "empty_code_items =
     [JDict [(''ServiceCode'', JStr []), (''Type'', JStr ''openAPI''),
             (''Endpoint'', JStr ''slb.aliyuncs.com'')]]"

text \<open>A location service that knows \<open>ecs\<close>, answers \<open>slb\<close> with the entry above,
  rejects the region for \<open>rds\<close>, the product for \<open>oss\<close> and throttles the rest.\<close>

definition stub_fetch :: fetch where
  "stub_fetch args =
     (let code = fst (snd (snd args))
      in if code = ''ecs'' then Context (Inr (reply_body ecs_items))
         else if code = ''slb'' then Context (Inr (reply_body empty_code_items))
         else if code = ''rds''
         then Raises (ServerException (Some ''InvalidRegionId'')
                        (Some ''The specified region does not exist.''))
         else if code = ''oss''
         then Raises (ServerException (Some ''Illegal Parameter'')
                        (Some ''Please check the parameters''))
         else Raises (ServerException (Some ''Throttling'') (Some ''Request was denied.'')))"

definition example_request :: "string \<Rightarrow> string \<Rightarrow> resolve_request" where
  "example_request product region =
     \<lparr>product_code = product, product_code_lower = lower product,
      location_service_code = Some (lower product), region_id = region,
      endpoint_type = ''openAPI''\<rparr>"

definition ecs_request :: resolve_request where
  "ecs_request = example_request ''Ecs'' ''cn-hangzhou''"

definition rds_request :: resolve_request where
  "rds_request = example_request ''Rds'' ''cn-hangzhou''"

definition oss_request :: resolve_request where
  "oss_request = example_request ''Oss'' ''cn-hangzhou''"

definition oss_request_beijing :: resolve_request where
  "oss_request_beijing = example_request ''Oss'' ''cn-beijing''"

definition slb_request :: resolve_request where
  "slb_request = example_request ''Slb'' ''cn-hangzhou''"

definition kms_request :: resolve_request where
  "kms_request = example_request ''Kms'' ''cn-hangzhou''"

text \<open>The resolver after \<open>ecs\<close> was resolved in a region that the service then
  rejected for \<open>rds\<close>.\<close>

definition shadowed_resolver :: resolver where
  "shadowed_resolver =
     resolve_all [(stub_fetch, ecs_request), (stub_fetch, rds_request)] init_resolver"

definition ecs_resolved :: resolver where
  "ecs_resolved = snd (resolve stub_fetch ecs_request init_resolver)"

definition slb_resolved :: resolver where
  "slb_resolved = snd (resolve stub_fetch slb_request init_resolver)"

definition upper_case_request :: resolve_request where
  "upper_case_request =
     \<lparr>product_code = ''ECS'', product_code_lower = ''ecs'',
      location_service_code = Some ''location-code'', region_id = ''CN-Hangzhou'',
      endpoint_type = ''open''\<rparr>"

definition lower_case_request :: resolve_request where
  "lower_case_request =
     \<lparr>product_code = ''ecs'', product_code_lower = ''ecs'',
      location_service_code = Some ''location-code'', region_id = ''cn-hangzhou'',
      endpoint_type = ''open''\<rparr>"

text \<open>The RPC canonical string in the words of the specification: the three fixups, and
  the method, the literal and the doubly encoded sorted query string.\<close>

definition rfc3986_fixups :: "string \<Rightarrow> string" where
  "rfc3986_fixups s = replace ''%7E'' ''~'' (replace ''*'' ''%2A'' (replace ''+'' ''%20'' s))"

definition rpc_canonical_string :: "string \<Rightarrow> (string \<times> pyval) list \<Rightarrow> string" where
  "rpc_canonical_string m merged =
     m @ ''&%2F&'' @ rfc3986_fixups (quote (rfc3986_fixups (urlencode (sort_key fst merged))) ''/'')"

text \<open>The ROA canonical resource block in the words of the specification: a parameter is
  emitted as \<open>key=value\<close>, or as \<open>key\<close> alone when its value is null; the block is the
  path, followed, when there are parameters, by \<open>?\<close> and the parameters in key order,
  separated by \<open>&\<close>.\<close>

definition emit_parameter :: "string \<times> pyval \<Rightarrow> string" where
  "emit_parameter kv = (case snd kv of VNone \<Rightarrow> fst kv | v \<Rightarrow> fst kv @ ''='' @ py_str v)"

definition resource_block :: "string \<Rightarrow> (string \<times> pyval) list \<Rightarrow> string" where
  "resource_block path params =
     (if params = [] then path
      else path @ ''?'' @ join ''&'' (map emit_parameter (sort_key fst params)))"

text \<open>The block as the specification words it, with the split at the first \<open>?\<close>.\<close>

definition split_first :: "string \<Rightarrow> char \<Rightarrow> string list" where
  "split_first s sep =
     (if sep \<in> set s
      then [takeWhile (\<lambda>c. c \<noteq> sep) s, tl (dropWhile (\<lambda>c. c \<noteq> sep) s)]
      else [s])"

definition canonical_resource_first_split :: "string \<Rightarrow> (string \<times> pyval) list \<Rightarrow> (string \<times> pyval) list \<times> string" where
  "canonical_resource_first_split uri queries =
     (let uri_parts = split_first uri CHR ''?'';
          queries1 = (if length uri_parts > 1 then AList.update (uri_parts ! 1) VNone queries
                      else queries)
      in (queries1, resource_block (uri_parts ! 0) queries1))"

text \<open>Stand-ins for the signing algorithm and the helpers, and example requests.\<close>

definition stub_algorithm :: algorithm where
  "stub_algorithm =
     \<lparr>signer_name = ''HMAC-SHA1'', signer_type = [], signer_version = ''1.0'',
      sign_string = (\<lambda>source secret. secret @ '':'' @ source)\<rparr>"

definition stub_helpers :: helpers where
  "stub_helpers =
     \<lparr>md5_sum = (\<lambda>content. ''md5-of-'' @ content),
      map_format_to_accept = (\<lambda>format. ''application/json'')\<rparr>"

definition example_credentials :: credentials where
  "example_credentials =
     \<lparr>access_key_id = Some ''key-id'', access_key_secret = ''key-secret'',
      security_token = None, bearer_token = None\<rparr>"

definition describe_regions_request :: api_request where
  "describe_regions_request =
     \<lparr>req_method = ''GET'', uri_pattern = ''/'', path_params = [],
      action_name = ''DescribeRegions'', req_headers = [], req_query_params = [],
      req_body_params = [(''RegionId'', VStr ''cn-hangzhou'')], req_content = None\<rparr>"

text \<open>A ROA request whose pattern has a placeholder and a query fragment.\<close>

definition clusters_request :: api_request where
  "clusters_request =
     \<lparr>req_method = ''get'', uri_pattern = ''/clusters/[ClusterId]?detail'',
      path_params = [(''ClusterId'', ''c-42'')],
      action_name = ''DescribeCluster'', req_headers = [(''Content-Type'', ''application/json'')],
      req_query_params = [(''size'', VInt 10)],
      req_body_params = [], req_content = None\<rparr>"

text \<open>The same request when its query parameters already hold the fragment as a key,
  with a null value and with the string \<open>None\<close>.\<close>

definition clusters_request_null :: api_request where
  "clusters_request_null =
     clusters_request\<lparr>req_query_params := [(''size'', VInt 10), (''detail'', VNone)]\<rparr>"

definition clusters_request_printed :: api_request where
  "clusters_request_printed =
     clusters_request\<lparr>req_query_params := [(''detail'', VStr ''None''), (''size'', VInt 10)]\<rparr>"

text \<open>And when they hold it with another value.\<close>

definition clusters_request_full :: api_request where
  "clusters_request_full =
     clusters_request\<lparr>req_query_params := [(''detail'', VStr ''full''), (''size'', VInt 10)]\<rparr>"

definition example_roa :: "api_request \<Rightarrow> ROASigner" where
  "example_roa request =
     (case ROASigner_init stub_helpers (Some example_credentials) request
             (VStr ''cn-hangzhou'') ''2015-12-15'' stub_algorithm of
        Inr self \<Rightarrow> self
      | Inl e \<Rightarrow>
          \<lparr>roa_credentials = example_credentials, roa_request = request,
           roa_region_id = VNone, roa_version = [], roa_signer = stub_algorithm,
           roa_headers = [], roa_uri = []\<rparr>)"

definition example_rpc :: "string \<Rightarrow> RPCSigner" where
  "example_rpc uuid =
     (case RPCSigner_init ''2019-01-01T00:00:00Z'' uuid (Some example_credentials)
             describe_regions_request (VStr ''cn-hangzhou'') ''2014-05-26'' stub_algorithm of
        Inr self \<Rightarrow> self
      | Inl e \<Rightarrow>
          \<lparr>rpc_credentials = example_credentials, rpc_request = describe_regions_request,
           rpc_region_id = VNone, rpc_version = [], rpc_signer = stub_algorithm,
           parameters = []\<rparr>)"

text \<open>The ROA signer of the first request after one evaluation of \<open>signature\<close>.\<close>

definition signed_roa :: ROASigner where
  "signed_roa =
     snd (roa_signature stub_helpers ''Tue, 15 Dec 2015 00:00:00 GMT'' (example_roa clusters_request))"

section \<open>Properties of the endpoint resolver\<close>

subsection \<open>Auxiliary facts\<close>

lemma scan_endpoints_frame:
  "invalid_region_ids (snd (scan_endpoints items key r s)) = invalid_region_ids s \<and>
   invalid_product_codes (snd (scan_endpoints items key r s)) = invalid_product_codes s \<and>
   fetch_calls (snd (scan_endpoints items key r s)) = fetch_calls s"
  by (induction items) (auto simp: put_endpoint_entry_def Let_def split: json.splits)

lemma scan_endpoints_frameD:
  "scan_endpoints items key r s = (res, s') \<Longrightarrow>
   invalid_region_ids s' = invalid_region_ids s \<and>
   invalid_product_codes s' = invalid_product_codes s \<and>
   fetch_calls s' = fetch_calls s"
  using scan_endpoints_frame [of items key r s] by simp

lemma call_location_service_grows:
  "invalid_region_ids s \<subseteq> invalid_region_ids (snd (call_location_service fetch key r s)) \<and>
   invalid_product_codes s \<subseteq> invalid_product_codes (snd (call_location_service fetch key r s))"
  unfolding call_location_service_def Let_def
  by (auto simp: put_endpoint_entry_def dest!: scan_endpoints_frameD
        split: fetch_result.splits exn.splits sum.splits prod.splits if_splits)

lemma resolve_grows:
  "invalid_region_ids s \<subseteq> invalid_region_ids (snd (resolve fetch r s)) \<and>
   invalid_product_codes s \<subseteq> invalid_product_codes (snd (resolve fetch r s))"
proof -
  have c: "\<And>key. invalid_region_ids s \<subseteq> invalid_region_ids (snd (call_location_service fetch key r s))"
          "\<And>key. invalid_product_codes s \<subseteq> invalid_product_codes (snd (call_location_service fetch key r s))"
    using call_location_service_grows by blast+
  have g: "\<And>key. invalid_region_ids s \<subseteq> invalid_region_ids (snd (get_endpoint_from_location_service fetch key r s))
      \<and> invalid_product_codes s \<subseteq> invalid_product_codes (snd (get_endpoint_from_location_service fetch key r s))"
    subgoal for key
      using c [of key]
      by (cases "call_location_service fetch key r s")
         (auto simp: get_endpoint_from_location_service_def split: sum.splits)
    done
  show ?thesis
    unfolding resolve_def using g
    by (auto split: sum.splits option.splits)
qed

lemma resolve_all_grows:
  "invalid_region_ids s \<subseteq> invalid_region_ids (resolve_all steps s) \<and>
   invalid_product_codes s \<subseteq> invalid_product_codes (resolve_all steps s)"
proof (induction steps arbitrary: s)
  case Nil
  then show ?case by simp
next
  case (Cons step steps)
  obtain f r where step: "step = (f, r)" by (cases step)
  from Cons [of "snd (resolve f r s)"] resolve_grows [of s f r]
  show ?case unfolding step by auto
qed

lemma resolve_invalid_region:
  "region_id r \<in> invalid_region_ids s \<Longrightarrow> resolve fetch r s = (Inr JNull, s)"
  by (simp add: resolve_def)

lemma resolve_invalid_product:
  "product_code_lower r \<in> invalid_product_codes s \<Longrightarrow> resolve fetch r s = (Inr JNull, s)"
  by (simp add: resolve_def)

lemma resolve_miss:
  assumes "location_service_code r = Some c" "c \<noteq> []"
    "product_code_lower r \<notin> invalid_product_codes s" "region_id r \<notin> invalid_region_ids s"
    "endpoints_data s (make_endpoint_entry_key (product_code r) c (region_id r) (endpoint_type r)) = None"
  shows "resolve fetch r s =
    (case call_location_service fetch (make_endpoint_entry_key (product_code r) c (region_id r) (endpoint_type r)) r s of
       (Inl e, s') \<Rightarrow> (Inl e, s')
     | (Inr u, s') \<Rightarrow> (Inr (endpoints_get s' (make_endpoint_entry_key (product_code r) c (region_id r) (endpoint_type r))), s'))"
  using assms
  by (simp add: resolve_def get_endpoint_key_from_request_def get_endpoint_from_location_service_def)

lemma truthy_py_or: "truthy (py_or a b) = (truthy a \<or> truthy b)"
  by (simp add: py_or_def)

lemma entry_matches_dict:
  "entry_matches etype (JDict d) =
     ((truthy (dict_get d ''ServiceCode'') \<or> truthy (dict_get d ''SerivceCode''))
      \<and> dict_get d ''Type'' = JStr etype)"
  by (simp add: entry_matches_def)

lemma entry_matches_is_dict: "entry_matches etype item \<Longrightarrow> is_dict item"
  by (cases item) (simp_all add: entry_matches_def is_dict_def)

lemma first_match_endpoint_Cons:
  "first_match_endpoint etype (JDict d # items) =
     (if entry_matches etype (JDict d) then dict_get d ''Endpoint''
      else first_match_endpoint etype items)"
  by (simp add: first_match_endpoint_def)

lemma scan_endpoints_find:
  assumes "\<forall>item\<in>set (takeWhile (\<lambda>item. \<not> entry_matches (endpoint_type r) item) items). is_dict item"
  shows "scan_endpoints items key r s =
     (case find (entry_matches (endpoint_type r)) items of
        None \<Rightarrow> (Inr False, s)
      | Some item \<Rightarrow> (Inr True, put_endpoint_entry key (first_match_endpoint (endpoint_type r) items) s))"
  using assms
proof (induction items)
  case Nil
  then show ?case by simp
next
  case (Cons item items)
  have "is_dict item"
  proof (cases "entry_matches (endpoint_type r) item")
    case True
    then show ?thesis by (rule entry_matches_is_dict)
  next
    case False
    with Cons.prems show ?thesis by simp
  qed
  then obtain d where d: "item = JDict d" by (auto simp: is_dict_def split: json.splits)
  have m: "(truthy (py_or (dict_get d ''ServiceCode'') (dict_get d ''SerivceCode''))
            \<and> dict_get d ''Type'' = JStr (endpoint_type r)) = entry_matches (endpoint_type r) (JDict d)"
    by (simp add: entry_matches_dict truthy_py_or)
  show ?case
  proof (cases "entry_matches (endpoint_type r) (JDict d)")
    case True
    then show ?thesis
      unfolding d by (simp add: m first_match_endpoint_Cons)
  next
    case False
    with Cons.prems have "\<forall>item\<in>set (takeWhile (\<lambda>item. \<not> entry_matches (endpoint_type r) item) items). is_dict item"
      unfolding d by simp
    from Cons.IH [OF this] False show ?thesis
      unfolding d by (simp add: m first_match_endpoint_Cons split: option.splits)
  qed
qed

lemma recorded_invalid:
  assumes "location_service_code request = Some c" and "c \<noteq> []"
    and "product_code_lower request \<notin> invalid_product_codes s"
    and "region_id request \<notin> invalid_region_ids s"
    and "get_endpoint_key_from_request request = Inr key"
    and "endpoints_data s key = None"
  shows "fetch (fetch_args_of request s) =
           Raises (ServerException (Some ''InvalidRegionId'') (Some ''The specified region does not exist.''))
         \<Longrightarrow> resolve fetch request s =
             (Inr JNull, put_endpoint_entry key JNull
                (s\<lparr>fetch_calls := fetch_calls s @ [fetch_args_of request s],
                   invalid_region_ids := insert (region_id request) (invalid_region_ids s)\<rparr>))"
    and "fetch (fetch_args_of request s) =
           Raises (ServerException (Some ''Illegal Parameter'') (Some ''Please check the parameters''))
         \<Longrightarrow> resolve fetch request s =
             (Inr JNull, put_endpoint_entry key JNull
                (s\<lparr>fetch_calls := fetch_calls s @ [fetch_args_of request s],
                   invalid_product_codes := insert (product_code_lower request) (invalid_product_codes s)\<rparr>))"
  using assms
  by (auto simp: resolve_def get_endpoint_key_from_request_def get_endpoint_from_location_service_def
        call_location_service_def Let_def endpoints_get_def put_endpoint_entry_def)

subsection \<open>Cache hits\<close>

text \<open>
  C1, as the code has it. For a request whose resolution key is in the endpoint cache,
  with a hostname or with the null marker, \<open>resolve\<close> makes no describe-endpoint call
  and leaves the resolver as it was. It returns the cached value when the
  location-service code is not empty and neither the lower-cased product code nor the
  region id is in an invalid set; otherwise it returns "no endpoint" (\<open>JNull\<close>), because
  the three guards come before the cache lookup.
\<close>

theorem resolve_cached:
  assumes "get_endpoint_key_from_request request = Inr key"
    and "endpoints_data s key = Some v"
  shows "resolve fetch request s =
           (Inr (if location_service_code request = Some []
                    \<or> product_code_lower request \<in> invalid_product_codes s
                    \<or> region_id request \<in> invalid_region_ids s
                 then JNull else v), s)"
  using assms
  by (auto simp: resolve_def get_endpoint_key_from_request_def split: option.splits)

theorem resolve_cached_witness:
  "endpoints_data ecs_resolved ''ecs.ecs.cn-hangzhou.openAPI'' = Some (JStr ''ecs.aliyuncs.com'')
   \<and> resolve stub_fetch ecs_request ecs_resolved = (Inr (JStr ''ecs.aliyuncs.com''), ecs_resolved)
   \<and> endpoints_data slb_resolved ''slb.slb.cn-hangzhou.openAPI'' = Some JNull
   \<and> resolve stub_fetch slb_request slb_resolved = (Inr JNull, slb_resolved)"
proof -
  have k1: "get_endpoint_key_from_request ecs_request = Inr ''ecs.ecs.cn-hangzhou.openAPI''"
    by code_simp
  have v1: "endpoints_data ecs_resolved ''ecs.ecs.cn-hangzhou.openAPI'' = Some (JStr ''ecs.aliyuncs.com'')"
    by code_simp
  have g1: "location_service_code ecs_request \<noteq> Some []"
    "product_code_lower ecs_request \<notin> invalid_product_codes ecs_resolved"
    "region_id ecs_request \<notin> invalid_region_ids ecs_resolved"
    by code_simp+
  have k2: "get_endpoint_key_from_request slb_request = Inr ''slb.slb.cn-hangzhou.openAPI''"
    by code_simp
  have v2: "endpoints_data slb_resolved ''slb.slb.cn-hangzhou.openAPI'' = Some JNull"
    by code_simp
  from resolve_cached [OF k1 v1, of stub_fetch] resolve_cached [OF k2 v2, of stub_fetch] g1 v1 v2
  show ?thesis by simp
qed

text \<open>
  C1 as stated fails: after \<open>ecs\<close> was resolved to a hostname in \<open>cn-hangzhou\<close> and the
  service then rejected that region for \<open>rds\<close>, the key of the \<open>ecs\<close> request is still
  cached with its hostname, and \<open>resolve\<close> returns "no endpoint".
\<close>

theorem cached_hostname_shadowed:
  "get_endpoint_key_from_request ecs_request = Inr ''ecs.ecs.cn-hangzhou.openAPI''
   \<and> endpoints_data shadowed_resolver ''ecs.ecs.cn-hangzhou.openAPI'' = Some (JStr ''ecs.aliyuncs.com'')
   \<and> fst (resolve stub_fetch ecs_request shadowed_resolver) = Inr JNull
   \<and> fst (resolve stub_fetch ecs_request shadowed_resolver) \<noteq> Inr (JStr ''ecs.aliyuncs.com'')
   \<and> fetch_calls (snd (resolve stub_fetch ecs_request shadowed_resolver)) = fetch_calls shadowed_resolver"
  by code_simp

subsection \<open>Unrecognized rejections\<close>

text \<open>
  C2. When \<open>resolve\<close> reaches the describe-endpoint call and the call raises anything
  but the two recognized rejections, \<open>resolve\<close> raises that same exception, and the
  resolver differs from the one before only by the logged call: the endpoint cache and
  both invalid sets are unchanged.
\<close>

theorem unrecognized_rejection_propagates:
  assumes "location_service_code request = Some c" and "c \<noteq> []"
    and "product_code_lower request \<notin> invalid_product_codes s"
    and "region_id request \<notin> invalid_region_ids s"
    and "get_endpoint_key_from_request request = Inr key"
    and "endpoints_data s key = None"
    and "fetch (fetch_args_of request s) = Raises e"
    and "e \<noteq> ServerException (Some ''InvalidRegionId'') (Some ''The specified region does not exist.'')"
    and "e \<noteq> ServerException (Some ''Illegal Parameter'') (Some ''Please check the parameters'')"
  shows "resolve fetch request s = (Inl e, s\<lparr>fetch_calls := fetch_calls s @ [fetch_args_of request s]\<rparr>)"
  using assms
  by (cases e)
     (auto simp: resolve_def get_endpoint_key_from_request_def get_endpoint_from_location_service_def
        call_location_service_def Let_def)

theorem unrecognized_rejection_propagates_witness:
  "stub_fetch (fetch_args_of kms_request init_resolver) =
     Raises (ServerException (Some ''Throttling'') (Some ''Request was denied.''))
   \<and> resolve stub_fetch kms_request init_resolver =
       (Inl (ServerException (Some ''Throttling'') (Some ''Request was denied.'')),
        init_resolver\<lparr>fetch_calls := fetch_calls init_resolver @ [fetch_args_of kms_request init_resolver]\<rparr>)"
proof -
  have h: "location_service_code kms_request = Some ''kms''" "''kms'' \<noteq> []"
    "product_code_lower kms_request \<notin> invalid_product_codes init_resolver"
    "region_id kms_request \<notin> invalid_region_ids init_resolver"
    "get_endpoint_key_from_request kms_request = Inr ''kms.kms.cn-hangzhou.openAPI''"
    "endpoints_data init_resolver ''kms.kms.cn-hangzhou.openAPI'' = None"
    by code_simp+
  have f: "stub_fetch (fetch_args_of kms_request init_resolver) =
     Raises (ServerException (Some ''Throttling'') (Some ''Request was denied.''))"
    by code_simp
  have n: "ServerException (Some ''Throttling'') (Some ''Request was denied.'')
             \<noteq> ServerException (Some ''InvalidRegionId'') (Some ''The specified region does not exist.'')"
     "ServerException (Some ''Throttling'') (Some ''Request was denied.'')
             \<noteq> ServerException (Some ''Illegal Parameter'') (Some ''Please check the parameters'')"
    by simp_all
  from unrecognized_rejection_propagates [where fetch = stub_fetch, OF h f n] f
  show ?thesis by simp
qed

subsection \<open>Invalid regions and products\<close>

text \<open>
  C6. Once a \<open>resolve\<close> call has met the rejection \<open>InvalidRegionId\<close>, the region id is
  in the invalid-region set, and after any further run of \<open>resolve\<close> calls every request
  with that region id, whatever its product code, gets "no endpoint" with the resolver
  unchanged, so without a describe-endpoint call. The same holds for the lower-cased
  product code after the rejection \<open>Illegal Parameter\<close>.
\<close>

theorem invalid_codes_short_circuit:
  assumes "location_service_code request = Some c" and "c \<noteq> []"
    and "product_code_lower request \<notin> invalid_product_codes s"
    and "region_id request \<notin> invalid_region_ids s"
    and "get_endpoint_key_from_request request = Inr key"
    and "endpoints_data s key = None"
    and "s1 = snd (resolve fetch request s)"
    and "s2 = resolve_all later s1"
  shows "(fetch (fetch_args_of request s) =
            Raises (ServerException (Some ''InvalidRegionId'') (Some ''The specified region does not exist.''))
          \<and> region_id request' = region_id request
          \<longrightarrow> region_id request \<in> invalid_region_ids s1
              \<and> resolve fetch' request' s2 = (Inr JNull, s2))
       \<and> (fetch (fetch_args_of request s) =
            Raises (ServerException (Some ''Illegal Parameter'') (Some ''Please check the parameters''))
          \<and> product_code_lower request' = product_code_lower request
          \<longrightarrow> product_code_lower request \<in> invalid_product_codes s1
              \<and> resolve fetch' request' s2 = (Inr JNull, s2))"
proof (intro conjI impI; elim conjE)
  assume f: "fetch (fetch_args_of request s) =
            Raises (ServerException (Some ''InvalidRegionId'') (Some ''The specified region does not exist.''))"
    and r: "region_id request' = region_id request"
  from recorded_invalid(1) [where fetch = fetch, OF assms(1-6) f] assms(7)
  show in1: "region_id request \<in> invalid_region_ids s1"
    by (simp add: put_endpoint_entry_def)
  with resolve_all_grows [of s1 later] assms(8) have "region_id request' \<in> invalid_region_ids s2"
    using r by auto
  then show "resolve fetch' request' s2 = (Inr JNull, s2)"
    by (rule resolve_invalid_region)
next
  assume f: "fetch (fetch_args_of request s) =
            Raises (ServerException (Some ''Illegal Parameter'') (Some ''Please check the parameters''))"
    and r: "product_code_lower request' = product_code_lower request"
  from recorded_invalid(2) [where fetch = fetch, OF assms(1-6) f] assms(7)
  show in1: "product_code_lower request \<in> invalid_product_codes s1"
    by (simp add: put_endpoint_entry_def)
  with resolve_all_grows [of s1 later] assms(8) have "product_code_lower request' \<in> invalid_product_codes s2"
    using r by auto
  then show "resolve fetch' request' s2 = (Inr JNull, s2)"
    by (rule resolve_invalid_product)
qed

theorem invalid_codes_short_circuit_witness:
  "stub_fetch (fetch_args_of rds_request init_resolver) =
     Raises (ServerException (Some ''InvalidRegionId'') (Some ''The specified region does not exist.''))
   \<and> region_id ecs_request = region_id rds_request
   \<and> product_code_lower ecs_request \<noteq> product_code_lower rds_request
   \<and> resolve stub_fetch ecs_request
        (resolve_all [(stub_fetch, kms_request)] (snd (resolve stub_fetch rds_request init_resolver)))
       = (Inr JNull, resolve_all [(stub_fetch, kms_request)] (snd (resolve stub_fetch rds_request init_resolver)))
   \<and> stub_fetch (fetch_args_of oss_request init_resolver) =
     Raises (ServerException (Some ''Illegal Parameter'') (Some ''Please check the parameters''))
   \<and> product_code_lower oss_request_beijing = product_code_lower oss_request
   \<and> resolve stub_fetch oss_request_beijing
        (resolve_all [(stub_fetch, kms_request)] (snd (resolve stub_fetch oss_request init_resolver)))
       = (Inr JNull, resolve_all [(stub_fetch, kms_request)] (snd (resolve stub_fetch oss_request init_resolver)))"
proof -
  have h1: "location_service_code rds_request = Some ''rds''" "''rds'' \<noteq> []"
    "product_code_lower rds_request \<notin> invalid_product_codes init_resolver"
    "region_id rds_request \<notin> invalid_region_ids init_resolver"
    "get_endpoint_key_from_request rds_request = Inr ''rds.rds.cn-hangzhou.openAPI''"
    "endpoints_data init_resolver ''rds.rds.cn-hangzhou.openAPI'' = None"
    by code_simp+
  have h2: "location_service_code oss_request = Some ''oss''" "''oss'' \<noteq> []"
    "product_code_lower oss_request \<notin> invalid_product_codes init_resolver"
    "region_id oss_request \<notin> invalid_region_ids init_resolver"
    "get_endpoint_key_from_request oss_request = Inr ''oss.oss.cn-hangzhou.openAPI''"
    "endpoints_data init_resolver ''oss.oss.cn-hangzhou.openAPI'' = None"
    by code_simp+
  have f1: "stub_fetch (fetch_args_of rds_request init_resolver) =
     Raises (ServerException (Some ''InvalidRegionId'') (Some ''The specified region does not exist.''))"
    by code_simp
  have f2: "stub_fetch (fetch_args_of oss_request init_resolver) =
     Raises (ServerException (Some ''Illegal Parameter'') (Some ''Please check the parameters''))"
    by code_simp
  have e: "region_id ecs_request = region_id rds_request"
    "product_code_lower ecs_request \<noteq> product_code_lower rds_request"
    "product_code_lower oss_request_beijing = product_code_lower oss_request"
    by code_simp+
  from invalid_codes_short_circuit [where fetch = stub_fetch and fetch' = stub_fetch
      and request' = ecs_request and later = "[(stub_fetch, kms_request)]", OF h1 refl refl]
    invalid_codes_short_circuit [where fetch = stub_fetch and fetch' = stub_fetch
      and request' = oss_request_beijing and later = "[(stub_fetch, kms_request)]", OF h2 refl refl]
    f1 f2 e
  show ?thesis by simp
qed

subsection \<open>The resolution key\<close>

text \<open>
  C7. Two requests whose product codes and region ids agree after lower-casing and whose
  location-service codes and endpoint types agree have the same resolution key: the four
  normalized parts joined with a dot. The witness is the pair of the spec,
  (\<open>ECS\<close>, \<open>location-code\<close>, \<open>CN-Hangzhou\<close>, \<open>open\<close>) and
  (\<open>ecs\<close>, \<open>location-code\<close>, \<open>cn-hangzhou\<close>, \<open>open\<close>).
\<close>

theorem resolution_key_normalized:
  assumes "lower (product_code r1) = lower (product_code r2)"
    and "location_service_code r1 = Some c" and "location_service_code r2 = Some c"
    and "lower (region_id r1) = lower (region_id r2)"
    and "endpoint_type r1 = endpoint_type r2"
  shows "get_endpoint_key_from_request r1 = get_endpoint_key_from_request r2
       \<and> get_endpoint_key_from_request r1 =
           Inr (lower (product_code r1) @ ''.'' @ c @ ''.'' @ lower (region_id r1) @ ''.'' @ endpoint_type r1)"
  using assms
  by (simp add: get_endpoint_key_from_request_def make_endpoint_entry_key_def)

theorem resolution_key_normalized_witness:
  "get_endpoint_key_from_request upper_case_request = get_endpoint_key_from_request lower_case_request
   \<and> get_endpoint_key_from_request upper_case_request = Inr ''ecs.location-code.cn-hangzhou.open''"
proof -
  have h: "lower (product_code upper_case_request) = lower (product_code lower_case_request)"
    "location_service_code upper_case_request = Some ''location-code''"
    "location_service_code lower_case_request = Some ''location-code''"
    "lower (region_id upper_case_request) = lower (region_id lower_case_request)"
    "endpoint_type upper_case_request = endpoint_type lower_case_request"
    by code_simp+
  have v: "lower (product_code upper_case_request) @ ''.'' @ ''location-code'' @ ''.'' @
           lower (region_id upper_case_request) @ ''.'' @ endpoint_type upper_case_request
           = ''ecs.location-code.cn-hangzhou.open''"
    by code_simp
  from resolution_key_normalized [OF h, unfolded v] show ?thesis by metis
qed

subsection \<open>The scan of the endpoint list\<close>

text \<open>
  C9, as the code has it. Let the body of the reply give, under \<open>Endpoints\<close> and then
  \<open>Endpoint\<close> (whatever else the body and that object hold), a collection whose
  entries, as far as the scan reads them, are objects. Then \<open>resolve\<close> caches and
  returns the \<open>Endpoint\<close> of the first entry whose \<open>Type\<close> is the requested endpoint
  type and whose service code, under \<open>ServiceCode\<close> or \<open>SerivceCode\<close>, is true (not
  empty); with no such entry it caches and returns "no endpoint". Where \<open>ServiceCode\<close>
  is true it is the value taken. The scan reads the entries before the selected one, and
  all of them when none is selected.
\<close>

theorem first_matching_entry_cached:
  assumes "location_service_code request = Some c" and "c \<noteq> []"
    and "product_code_lower request \<notin> invalid_product_codes s"
    and "region_id request \<notin> invalid_region_ids s"
    and "get_endpoint_key_from_request request = Inr key"
    and "endpoints_data s key = None"
    and "fetch (fetch_args_of request s) = Context (Inr body)"
    and "subscript body ''Endpoints'' = Inr endpoints"
    and "subscript endpoints ''Endpoint'' = Inr endpoint"
    and "py_iter endpoint = Inr items"
    and "\<forall>item\<in>set (takeWhile (\<lambda>item. \<not> entry_matches (endpoint_type request) item) items). is_dict item"
  shows "fst (resolve fetch request s) = Inr (first_match_endpoint (endpoint_type request) items)
       \<and> endpoints_data (snd (resolve fetch request s)) key
           = Some (first_match_endpoint (endpoint_type request) items)
       \<and> (\<forall>d. truthy (dict_get d ''ServiceCode'') \<longrightarrow>
              py_or (dict_get d ''ServiceCode'') (dict_get d ''SerivceCode'') = dict_get d ''ServiceCode'')"
proof -
  have k: "key = make_endpoint_entry_key (product_code request) c (region_id request) (endpoint_type request)"
    using assms(1,5) by (simp add: get_endpoint_key_from_request_def)
  have call: "call_location_service fetch key request s =
     (Inr (), put_endpoint_entry key (first_match_endpoint (endpoint_type request) items)
        (s\<lparr>fetch_calls := fetch_calls s @ [fetch_args_of request s],
           valid_product_codes := insert (product_code_lower request) (valid_product_codes s),
           valid_region_ids := insert (region_id request) (valid_region_ids s)\<rparr>))"
    using assms(7-10)
    by (simp add: call_location_service_def Let_def
          scan_endpoints_find [OF assms(11)] first_match_endpoint_def split: option.splits)
  have "resolve fetch request s =
     (Inr (first_match_endpoint (endpoint_type request) items),
      put_endpoint_entry key (first_match_endpoint (endpoint_type request) items)
        (s\<lparr>fetch_calls := fetch_calls s @ [fetch_args_of request s],
           valid_product_codes := insert (product_code_lower request) (valid_product_codes s),
           valid_region_ids := insert (region_id request) (valid_region_ids s)\<rparr>))"
    using resolve_miss [OF assms(1-4), of fetch] assms(6) call
    by (simp add: k [symmetric] endpoints_get_def put_endpoint_entry_def)
  then show ?thesis
    by (simp add: put_endpoint_entry_def py_or_def)
qed

theorem first_matching_entry_cached_witness:
  "stub_fetch (fetch_args_of ecs_request init_resolver) = Context (Inr (reply_body ecs_items))
   \<and> \<not> is_dict (last ecs_items)
   \<and> fst (resolve stub_fetch ecs_request init_resolver) = Inr (JStr ''ecs.aliyuncs.com'')
   \<and> endpoints_data (snd (resolve stub_fetch ecs_request init_resolver)) ''ecs.ecs.cn-hangzhou.openAPI''
       = Some (JStr ''ecs.aliyuncs.com'')
   \<and> py_or (dict_get [(''ServiceCode'', JStr ''a''), (''SerivceCode'', JStr ''b'')] ''ServiceCode'')
           (dict_get [(''ServiceCode'', JStr ''a''), (''SerivceCode'', JStr ''b'')] ''SerivceCode'')
       = JStr ''a''"
proof -
  have h: "location_service_code ecs_request = Some ''ecs''" "''ecs'' \<noteq> []"
    "product_code_lower ecs_request \<notin> invalid_product_codes init_resolver"
    "region_id ecs_request \<notin> invalid_region_ids init_resolver"
    "get_endpoint_key_from_request ecs_request = Inr ''ecs.ecs.cn-hangzhou.openAPI''"
    "endpoints_data init_resolver ''ecs.ecs.cn-hangzhou.openAPI'' = None"
    by code_simp+
  have f: "stub_fetch (fetch_args_of ecs_request init_resolver) = Context (Inr (reply_body ecs_items))"
    by code_simp
  have b: "subscript (reply_body ecs_items) ''Endpoints'' = Inr (JDict [(''Endpoint'', JList ecs_items)])"
    "subscript (JDict [(''Endpoint'', JList ecs_items)]) ''Endpoint'' = Inr (JList ecs_items)"
    "py_iter (JList ecs_items) = Inr ecs_items"
    by code_simp+
  have d: "\<forall>item\<in>set (takeWhile (\<lambda>item. \<not> entry_matches (endpoint_type ecs_request) item) ecs_items). is_dict item"
    by code_simp
  have l: "\<not> is_dict (last ecs_items)" by code_simp
  have v: "first_match_endpoint (endpoint_type ecs_request) ecs_items = JStr ''ecs.aliyuncs.com''"
    by code_simp
  have t: "truthy (dict_get [(''ServiceCode'', JStr ''a''), (''SerivceCode'', JStr ''b'')] ''ServiceCode'')"
    by code_simp
  note T = first_matching_entry_cached [where fetch = stub_fetch, OF h f b d]
  have p: "py_or (dict_get [(''ServiceCode'', JStr ''a''), (''SerivceCode'', JStr ''b'')] ''ServiceCode'')
           (dict_get [(''ServiceCode'', JStr ''a''), (''SerivceCode'', JStr ''b'')] ''SerivceCode'')
       = dict_get [(''ServiceCode'', JStr ''a''), (''SerivceCode'', JStr ''b'')] ''ServiceCode''"
    using T t by blast
  have q: "dict_get [(''ServiceCode'', JStr ''a''), (''SerivceCode'', JStr ''b'')] ''ServiceCode'' = JStr ''a''"
    by code_simp
  from T f v p q l show ?thesis by simp
qed

text \<open>
  C9 as stated fails: an entry that carries \<open>ServiceCode\<close> with the empty string and has
  the requested type is not selected.
\<close>

theorem empty_service_code_not_selected:
  "stub_fetch (fetch_args_of slb_request init_resolver) = Context (Inr (reply_body empty_code_items))
   \<and> empty_code_items =
       [JDict [(''ServiceCode'', JStr []), (''Type'', JStr (endpoint_type slb_request)),
               (''Endpoint'', JStr ''slb.aliyuncs.com'')]]
   \<and> fst (resolve stub_fetch slb_request init_resolver) = Inr JNull
   \<and> endpoints_data (snd (resolve stub_fetch slb_request init_resolver)) ''slb.slb.cn-hangzhou.openAPI''
       = Some JNull"
  by code_simp

section \<open>Properties of the request signers\<close>

subsection \<open>Auxiliary facts on strings and dicts\<close>

lemma takeWhile_until:
  "sep \<notin> set xs \<Longrightarrow> takeWhile (\<lambda>c. c \<noteq> sep) (xs @ sep # ys) = xs"
  by (induction xs) auto

lemma dropWhile_until:
  "sep \<notin> set xs \<Longrightarrow> dropWhile (\<lambda>c. c \<noteq> sep) (xs @ sep # ys) = sep # ys"
  by (induction xs) auto

lemma rsplit1_last:
  assumes "sep \<notin> set frag"
  shows "rsplit1 (path @ sep # frag) sep = [path, frag]"
proof -
  have r: "rev (path @ sep # frag) = rev frag @ sep # rev path" by simp
  have n: "sep \<notin> set (rev frag)" using assms by simp
  show ?thesis
    unfolding rsplit1_def r takeWhile_until [OF n] dropWhile_until [OF n] by simp
qed

lemma rsplit1_absent: "sep \<notin> set s \<Longrightarrow> rsplit1 s sep = [s]"
  by (simp add: rsplit1_def)

lemma concat_with_separator:
  "xs \<noteq> [] \<Longrightarrow> concat (map (\<lambda>x. f x @ sep) xs) = join sep (map f xs) @ sep"
proof (induction xs)
  case Nil
  then show ?case by simp
next
  case (Cons x xs)
  then show ?case by (cases xs) simp_all
qed

lemma endswith_nonempty: "endswith s [c] = (s \<noteq> [] \<and> last s = c)"
proof (cases s rule: rev_cases)
  case Nil
  then show ?thesis by (simp add: endswith_def)
next
  case (snoc ys y)
  then show ?thesis by (auto simp: endswith_def)
qed

lemma emit_parameter_code:
  "fst kv @ (case snd kv of VNone \<Rightarrow> [] | v \<Rightarrow> ''='' @ py_str v) @ ''&'' = emit_parameter kv @ ''&''"
  by (cases "snd kv") (simp_all add: emit_parameter_def)

lemma sorted_items_Nil: "(sorted_items d = []) = (d = [])"
  by (metis length_0_conv length_sort sorted_items_def)

lemma build_canonical_resource_block:
  assumes "uri_parts = rsplit1 uri CHR ''?''"
    and "queries1 = (if length uri_parts > 1 then AList.update (uri_parts ! 1) VNone queries else queries)"
    and "queries1 \<noteq> [] \<or> \<not> endswith (uri_parts ! 0) ''&''"
  shows "build_canonical_resource uri queries = (queries1, resource_block (uri_parts ! 0) queries1)"
proof (cases "queries1 = []")
  case True
  have u: "\<And>k v. AList.update k v queries \<noteq> []"
    by (cases queries) auto
  from True assms(2) u have q: "queries = []" and l: "\<not> length uri_parts > 1"
    by (auto split: if_splits)
  from True assms(3) have e: "\<not> endswith (uri_parts ! 0) ''&''" by simp
  show ?thesis
    unfolding build_canonical_resource_def Let_def assms(1) [symmetric]
    using q l e True
    by (simp add: resource_block_def sorted_items_def)
next
  case False
  then have ne: "sorted_items queries1 \<noteq> []" by (simp add: sorted_items_Nil)
  have c: "concat (map (\<lambda>kv. fst kv @ (case snd kv of VNone \<Rightarrow> [] | v \<Rightarrow> ''='' @ py_str v) @ ''&'')
                     (sorted_items queries1))
           = join ''&'' (map emit_parameter (sorted_items queries1)) @ ''&''"
    using concat_with_separator [OF ne, of emit_parameter "''&''"]
    by (simp add: emit_parameter_code)
  have e: "\<And>p. endswith (p @ ''&'') ''&''" "\<And>p. butlast (p @ ''&'') = p"
    by (simp_all add: endswith_def)
  have "build_canonical_resource uri queries =
     (queries1, (uri_parts ! 0) @ ''?'' @ join ''&'' (map emit_parameter (sorted_items queries1)))"
    unfolding build_canonical_resource_def Let_def assms(1) [symmetric] assms(2) [symmetric] c
    using ne e [of "(uri_parts ! 0) @ ''?'' @ join ''&'' (map emit_parameter (sorted_items queries1))"]
    by simp
  with False show ?thesis
    by (simp add: resource_block_def sorted_items_def)
qed

lemma build_canonical_resource_queries:
  "fst (build_canonical_resource uri queries) =
     (if length (rsplit1 uri CHR ''?'') > 1
      then AList.update (rsplit1 uri CHR ''?'' ! 1) VNone queries else queries)"
  by (simp add: build_canonical_resource_def Let_def)

lemma update_absent: "k \<notin> fst ` set al \<Longrightarrow> AList.update k v al = al @ [(k, v)]"
  by (induction al) auto

lemma join_snoc: "join sep (xs @ [x]) = (if xs = [] then x else join sep xs @ sep @ x)"
  by (induction sep xs rule: join.induct) auto

lemma quote_plus_None: "quote_plus ''None'' = ''None''"
  by code_simp

lemma urlencode_snoc_None:
  "urlencode (qs @ [(k, VNone)]) =
     (if qs = [] then [] else urlencode qs @ ''&'') @ quote_plus k @ ''=None''"
  by (simp add: urlencode_def join_snoc quote_plus_None)

lemma urlencode_Nil: "urlencode [] = []"
  by (simp add: urlencode_def)

lemma alist_eqI:
  "map fst xs = map fst ys \<Longrightarrow> distinct (map fst xs) \<Longrightarrow> map_of xs = map_of ys \<Longrightarrow> xs = ys"
proof (induction xs arbitrary: ys)
  case Nil
  then show ?case by simp
next
  case (Cons x xs)
  then obtain y ys' where ys: "ys = y # ys'" by (cases ys) auto
  from Cons.prems(1) ys have k: "fst x = fst y" and ks: "map fst xs = map fst ys'"
    by simp_all
  from Cons.prems(2) have nx: "fst x \<notin> set (map fst xs)" and d: "distinct (map fst xs)"
    by simp_all
  from nx ks have ny: "fst x \<notin> set (map fst ys')" by simp
  have e: "map_of (x # xs) k' = map_of (y # ys') k'" for k'
    using Cons.prems(3) unfolding ys by (rule fun_cong)
  from e [of "fst x"] k have v: "snd x = snd y" by (cases x; cases y) simp
  have "map_of xs k' = map_of ys' k'" for k'
  proof (cases "k' = fst x")
    case True
    with nx ny show ?thesis by (simp add: map_of_eq_None_iff [THEN iffD2])
  next
    case False
    from e [of k'] False k show ?thesis by (cases x; cases y) simp
  qed
  then have "map_of xs = map_of ys'" by (rule ext)
  from Cons.IH [OF ks d this] k v ys show ?case by (cases x; cases y) simp
qed

lemma dict_update_Cons: "dict_update (kv # other) d = dict_update other (AList.update (fst kv) (snd kv) d)"
  by (simp add: dict_update_def)

lemma dict_update_Nil: "dict_update [] d = d"
  by (simp add: dict_update_def)

lemma dict_update_distinct: "distinct (map fst d) \<Longrightarrow> distinct (map fst (dict_update other d))"
  by (induction other arbitrary: d) (simp_all add: dict_update_Nil dict_update_Cons distinct_update)

lemma dict_update_keys_present:
  "fst ` set other \<subseteq> fst ` set d \<Longrightarrow> map fst (dict_update other d) = map fst d"
proof (induction other arbitrary: d)
  case Nil
  then show ?case by (simp add: dict_update_Nil)
next
  case (Cons kv other)
  then have "fst ` set other \<subseteq> fst ` set (AList.update (fst kv) (snd kv) d)"
    by (metis (no_types, lifting) insert_subset list.set_map list.simps(15) image_insert update_keys)
  from Cons.IH [OF this] Cons.prems show ?case
    by (simp add: dict_update_Cons update_keys)
qed

lemma dict_update_keys_grow: "fst ` set d \<subseteq> fst ` set (dict_update other d)"
proof (induction other arbitrary: d)
  case Nil
  then show ?case by (simp add: dict_update_Nil)
next
  case (Cons kv other)
  have "fst ` set d \<subseteq> fst ` set (AList.update (fst kv) (snd kv) d)"
    using update_keys [of "fst kv" "snd kv" d] by (metis list.set_map set_append subset_refl sup_ge1)
  with Cons.IH [of "AList.update (fst kv) (snd kv) d"] show ?case
    by (auto simp: dict_update_Cons)
qed

lemma dict_update_keys_other: "fst ` set other \<subseteq> fst ` set (dict_update other d)"
proof (induction other arbitrary: d)
  case Nil
  then show ?case by simp
next
  case (Cons kv other)
  have "fst kv \<in> fst ` set (AList.update (fst kv) (snd kv) d)"
    using update_keys [of "fst kv" "snd kv" d] by (metis UnCI list.set_intros(1) list.set_map set_append)
  with dict_update_keys_grow [of "AList.update (fst kv) (snd kv) d" other]
    Cons.IH [of "AList.update (fst kv) (snd kv) d"]
  show ?case by (auto simp: dict_update_Cons)
qed

lemma map_of_dict_update: "map_of (dict_update other d) = map_of d ++ map_of (rev other)"
proof (induction other arbitrary: d)
  case Nil
  then show ?case by (simp add: dict_update_Nil)
next
  case (Cons kv other)
  show ?case
    unfolding dict_update_Cons Cons.IH update_conv'
    by (rule ext) (auto simp: map_add_def split: option.splits)
qed

lemma dict_update_append: "dict_update (xs @ ys) d = dict_update ys (dict_update xs d)"
  by (simp add: dict_update_def)

lemma dict_update_idem:
  assumes "distinct (map fst d)"
  shows "dict_update other (dict_update other d) = dict_update other d"
proof (rule alist_eqI)
  show "map fst (dict_update other (dict_update other d)) = map fst (dict_update other d)"
    by (rule dict_update_keys_present) (rule dict_update_keys_other)
  show "distinct (map fst (dict_update other (dict_update other d)))"
    by (intro dict_update_distinct assms)
  show "map_of (dict_update other (dict_update other d)) = map_of (dict_update other d)"
    unfolding map_of_dict_update
    by (rule ext) (auto simp: map_add_def split: option.splits)
qed

subsection \<open>The RPC canonical string\<close>

text \<open>
  C3. For every RPC signer the canonical string that the property \<open>signature\<close> returns is
  the HTTP method, then the literal \<open>&%2F&\<close>, then the query string obtained from the
  merged parameter mapping by sorting it by key, form-urlencoding it, applying the three
  fixups (\<open>+\<close> to \<open>%20\<close>, \<open>*\<close> to \<open>%2A\<close>, \<open>%7E\<close> to \<open>~\<close>), percent-encoding the
  result a second time as a URL path and applying the fixups again; \<open>_calc_signature\<close>
  computes exactly this from any method and mapping.
\<close>

theorem rpc_canonical_string_refines:
  "calc_signature m params = rpc_canonical_string m params
   \<and> fst (rpc_signature self) =
       rpc_canonical_string (req_method (rpc_request self)) (merged_parameters self)"
  by (simp add: rpc_signature_def calc_signature_def rpc_canonical_string_def Let_def
        pop_standard_urlencode_def rfc3986_fixups_def pathname2url_def sorted_items_def)

text \<open>The encoding at work: a space becomes \<open>%2520\<close>, a star \<open>%252A\<close>, the tilde
  stays.\<close>

lemma calc_signature_sample:
  "calc_signature ''GET'' [(''b'', VStr ''x y*~''), (''Action'', VStr ''DescribeRegions'')]
     = ''GET&%2F&Action%3DDescribeRegions%26b%3Dx%2520y%252A~''"
  by code_simp

subsection \<open>Missing credentials\<close>

text \<open>
  C5, as the code has it. With no credentials bound, both constructors raise
  \<open>NoCredentialsException\<close>: \<open>ROASigner.__init__\<close> through \<open>_prepare_headers\<close>, and
  \<open>RPCSigner.__init__\<close> through \<open>_canonicalized_query_string\<close>, which it calls to fill
  \<open>self.parameters\<close>.
\<close>

theorem no_credentials_at_construction:
  "ROASigner_init h None request region version signer = Inl NoCredentialsException
   \<and> RPCSigner_init timestamp uuid None request region version signer = Inl NoCredentialsException"
  by (simp add: ROASigner_init_def prepare_headers_def RPCSigner_init_def
        canonicalized_query_string_def)

text \<open>
  C5 as stated fails: the RPC signer is not constructed when the credentials are missing.
\<close>

theorem rpc_construction_raises:
  "RPCSigner_init ''2019-01-01T00:00:00Z'' ''nonce'' None describe_regions_request
     (VStr ''cn-hangzhou'') ''2014-05-26'' stub_algorithm = Inl NoCredentialsException"
  by (simp add: RPCSigner_init_def canonicalized_query_string_def)

subsection \<open>The ROA canonical resource\<close>

text \<open>
  C8, as the code has it. The canonical resource block is built by splitting the URI at
  its last \<open>?\<close>. When there is a query fragment (the text after that \<open>?\<close>), it is
  added to the query parameters as a key with a null value, and the block is the path
  followed by \<open>?\<close> and the parameters in key order, as \<open>key=value\<close> or as \<open>key\<close> alone
  for a null value, separated by \<open>&\<close> with none at the end. When the URI has no \<open>?\<close>,
  the parameters are the request's own and the block is built the same way; it is the
  URI alone when there are no parameters, provided the URI does not end in \<open>&\<close>.
\<close>

theorem canonical_resource_last_split:
  "(CHR ''?'' \<notin> set frag \<longrightarrow>
      build_canonical_resource (path @ ''?'' @ frag) queries
        = (AList.update frag VNone queries, resource_block path (AList.update frag VNone queries)))
   \<and> (CHR ''?'' \<notin> set uri \<and> (queries \<noteq> [] \<or> \<not> endswith uri ''&'') \<longrightarrow>
      build_canonical_resource uri queries = (queries, resource_block uri queries))"
proof (intro conjI impI)
  assume f: "CHR ''?'' \<notin> set frag"
  have r: "rsplit1 (path @ ''?'' @ frag) CHR ''?'' = [path, frag]"
    using rsplit1_last [OF f, of path] by simp
  have n: "AList.update frag VNone queries \<noteq> []"
    by (cases queries) auto
  show "build_canonical_resource (path @ ''?'' @ frag) queries
        = (AList.update frag VNone queries, resource_block path (AList.update frag VNone queries))"
    using build_canonical_resource_block [of "[path, frag]" "path @ ''?'' @ frag" "AList.update frag VNone queries" queries] r n
    by simp
next
  assume a: "CHR ''?'' \<notin> set uri \<and> (queries \<noteq> [] \<or> \<not> endswith uri ''&'')"
  then have r: "rsplit1 uri CHR ''?'' = [uri]" by (simp add: rsplit1_absent)
  show "build_canonical_resource uri queries = (queries, resource_block uri queries)"
    using build_canonical_resource_block [of "[uri]" uri queries queries] r a
    by simp
qed

theorem canonical_resource_last_split_witness:
  "build_canonical_resource ''/clusters/c-42?detail'' [(''size'', VInt 10)]
     = ([(''size'', VInt 10), (''detail'', VNone)], ''/clusters/c-42?detail&size=10'')
   \<and> build_canonical_resource ''/regions'' [(''b'', VStr ''2''), (''a'', VNone)]
     = ([(''b'', VStr ''2''), (''a'', VNone)], ''/regions?a&b=2'')"
proof -
  have h1: "CHR ''?'' \<notin> set ''detail''" by code_simp
  have h2: "CHR ''?'' \<notin> set ''/regions'' \<and> ([(''b'', VStr ''2''), (''a'', VNone)] \<noteq> [] \<or> \<not> endswith ''/regions'' ''&'')"
    by code_simp
  have v1: "AList.update ''detail'' VNone [(''size'', VInt 10)] = [(''size'', VInt 10), (''detail'', VNone)]"
    by code_simp
  have v2: "resource_block ''/clusters/c-42'' [(''size'', VInt 10), (''detail'', VNone)] = ''/clusters/c-42?detail&size=10''"
    by code_simp
  have v3: "resource_block ''/regions'' [(''b'', VStr ''2''), (''a'', VNone)] = ''/regions?a&b=2''"
    by code_simp
  have u: "''/clusters/c-42'' @ ''?'' @ ''detail'' = ''/clusters/c-42?detail''" by simp
  from canonical_resource_last_split [where frag = "''detail''" and path = "''/clusters/c-42''"
        and queries = "[(''size'', VInt 10)]", THEN conjunct1]
    canonical_resource_last_split [where uri = "''/regions''"
        and queries = "[(''b'', VStr ''2''), (''a'', VNone)]", THEN conjunct2]
    h1 h2 v1 v2 v3 u
  show ?thesis by (simp del: append.simps)
qed

text \<open>
  C8 as stated fails: on a URI with two \<open>?\<close> the code splits at the last one, not at
  the first, and both the parameters and the block differ.
\<close>

theorem first_split_differs:
  "build_canonical_resource ''/a?b?c'' [(''a'', VStr ''1'')] = ([(''a'', VStr ''1''), (''c'', VNone)], ''/a?b?a=1&c'')
   \<and> canonical_resource_first_split ''/a?b?c'' [(''a'', VStr ''1'')]
       = ([(''a'', VStr ''1''), (''b?c'', VNone)], ''/a?a=1&b?c'')
   \<and> build_canonical_resource ''/a?b?c'' [(''a'', VStr ''1'')]
       \<noteq> canonical_resource_first_split ''/a?b?c'' [(''a'', VStr ''1'')]"
  by code_simp

subsection \<open>What evaluating the ROA signature writes\<close>

lemma refresh_sign_parameters_headers:
  "map_of (roa_headers (refresh_sign_parameters h date self)) ''Date'' = Some date"
  "map_of (roa_headers (refresh_sign_parameters h date self)) ''Accept'' = Some (map_format_to_accept h ''JSON'')"
  "map_of (roa_headers (refresh_sign_parameters h date self)) ''x-acs-signature-method'' = Some (signer_name (roa_signer self))"
  "map_of (roa_headers (refresh_sign_parameters h date self)) ''x-acs-signature-version'' = Some (signer_version (roa_signer self))"
  by (simp_all add: refresh_sign_parameters_def Let_def update_conv')

lemma roa_signature_state:
  "roa_headers (snd (roa_signature h date self)) = roa_headers (refresh_sign_parameters h date self)"
  "roa_uri (snd (roa_signature h date self)) = roa_uri self"
  "roa_signer (snd (roa_signature h date self)) = roa_signer self"
  "roa_credentials (snd (roa_signature h date self)) = roa_credentials self"
  "req_query_params (roa_request (snd (roa_signature h date self))) =
     fst (build_canonical_resource (roa_uri self) (req_query_params (roa_request self)))"
  by (simp_all add: roa_signature_def Let_def refresh_sign_parameters_def)

lemma roa_params_length:
  "length (roa_params self) \<le>
     length (if \<not> endswith (roa_uri self) ''?'' then roa_uri self @ ''?'' else roa_uri self)
     + length (urlencode (req_query_params (roa_request self)))"
  by (simp add: roa_params_def Let_def)

lemma roa_params_after:
  assumes "req_query_params (roa_request self') = qs @ [(k, VNone)]"
  shows "roa_params self' =
     (if \<not> endswith (roa_uri self') ''?'' then roa_uri self' @ ''?'' else roa_uri self')
     @ (if qs = [] then [] else urlencode qs @ ''&'') @ quote_plus k @ ''=None''"
proof -
  have "\<not> endswith (p @ q @ r @ ''=None'') ''?''" for p q r :: string
    by (simp add: endswith_def)
  then show ?thesis
    unfolding roa_params_def Let_def assms urlencode_snoc_None
    by simp
qed

lemma replace_single: "replace [a] new s = concat (map (\<lambda>c. if c = a then new else [c]) s)"
proof (induction s)
  case Nil
  then show ?case by (simp add: replace.simps [of "[a]" new "[]"])
next
  case (Cons c s)
  then show ?case
    by (simp add: replace.simps [of "[a]" new "c # s"] startswith_def)
qed

lemma percent_head: "percent b \<noteq> [] \<and> hd (percent b) = CHR ''%''"
  by (simp add: percent_def)

lemma encoded_head:
  "concat (map percent (utf8 c)) \<noteq> [] \<and> hd (concat (map percent (utf8 c))) = CHR ''%''"
  by (simp add: utf8_def Let_def percent_def)

lemma quote_char_cases:
  "(if always_safe c \<or> c \<in> set safe then [c] else concat (map percent (utf8 c))) = [c]
   \<or> ((if always_safe c \<or> c \<in> set safe then [c] else concat (map percent (utf8 c))) \<noteq> []
       \<and> hd (if always_safe c \<or> c \<in> set safe then [c] else concat (map percent (utf8 c))) = CHR ''%'')"
  using encoded_head [of c] by simp

lemma concat_map_literal:
  assumes "\<And>c. f c = [c] \<or> (f c \<noteq> [] \<and> hd (f c) = p)"
    and "p \<notin> set t"
    and "concat (map f s) = t"
  shows "s = t"
  using assms(2,3)
proof (induction s arbitrary: t)
  case Nil
  then show ?case by simp
next
  case (Cons c s)
  from assms(1) [of c] show ?case
  proof
    assume "f c = [c]"
    with Cons.prems obtain t' where t: "t = c # t'" and r: "concat (map f s) = t'" by auto
    from Cons.prems(1) t have "p \<notin> set t'" by simp
    from Cons.IH [OF this r] t show ?thesis by simp
  next
    assume a: "f c \<noteq> [] \<and> hd (f c) = p"
    then obtain ys where "f c = p # ys" by (cases "f c") auto
    with Cons.prems show ?thesis by auto
  qed
qed

lemma quote_plus_is_None: "quote_plus s = ''None'' \<longleftrightarrow> s = ''None''"
proof
  assume q: "quote_plus s = ''None''"
  show "s = ''None''"
  proof (cases "CHR '' '' \<in> set s")
    case True
    then have "CHR '' '' \<in> set (quote s '' '')"
      by (auto simp: quote_def)
    then have "CHR ''+'' \<in> set (replace '' '' ''+'' (quote s '' ''))"
      unfolding replace_single by auto
    with True q show ?thesis by (simp add: quote_plus_def)
  next
    case False
    with q have "concat (map (\<lambda>c. if always_safe c \<or> c \<in> set [] then [c]
                                    else concat (map percent (utf8 c))) s) = ''None''"
      by (simp add: quote_plus_def quote_def)
    moreover have "CHR ''%'' \<notin> set ''None''" by simp
    ultimately show ?thesis
      using concat_map_literal [of "\<lambda>c. if always_safe c \<or> c \<in> set [] then [c]
                                    else concat (map percent (utf8 c))" "CHR ''%''" "''None''" s]
        quote_char_cases [of _ "[]"]
      by blast
  qed
next
  assume "s = ''None''"
  then show "quote_plus s = ''None''" by (simp add: quote_plus_None)
qed

lemma hex_digit_not_question: "d < 16 \<Longrightarrow> hex_digit d \<noteq> CHR ''?''"
proof -
  have "\<forall>d\<in>set [0..<16]. hex_digit d \<noteq> CHR ''?''" by code_simp
  then show "d < 16 \<Longrightarrow> hex_digit d \<noteq> CHR ''?''" by simp
qed

lemma percent_no_question:
  assumes "b < 256"
  shows "CHR ''?'' \<notin> set (percent b)"
proof -
  from assms have "b div 16 < 16" by simp
  then have h: "hex_digit (b div 16) \<noteq> CHR ''?''" by (rule hex_digit_not_question)
  have "b mod 16 < 16" by simp
  then have l: "hex_digit (b mod 16) \<noteq> CHR ''?''" by (rule hex_digit_not_question)
  from h l show ?thesis by (auto simp: percent_def)
qed

lemma utf8_bytes:
  assumes "b \<in> set (utf8 c)"
  shows "b < 256"
proof -
  define n where "n = (of_char c :: nat)"
  have n: "n < 256" unfolding n_def by simp
  then have "n div 64 < 4" by simp
  moreover have "n mod 64 < 64" by simp
  moreover from assms have "b = n \<or> b = 192 + n div 64 \<or> b = 128 + n mod 64"
    by (auto simp: utf8_def Let_def n_def split: if_splits)
  ultimately show ?thesis using n by auto
qed

lemma question_not_safe: "\<not> always_safe CHR ''?''"
  by code_simp

lemma quote_no_question: "CHR ''?'' \<notin> set safe \<Longrightarrow> CHR ''?'' \<notin> set (quote s safe)"
  using question_not_safe percent_no_question utf8_bytes
  by (auto simp: quote_def split: if_splits)

lemma quote_plus_no_question: "CHR ''?'' \<notin> set (quote_plus s)"
proof -
  have "CHR ''?'' \<notin> set (quote s [])" "CHR ''?'' \<notin> set (quote s '' '')"
    by (simp_all add: quote_no_question)
  then show ?thesis
    unfolding quote_plus_def replace_single by (auto split: if_splits)
qed

lemma set_join: "set (join sep xs) \<subseteq> set sep \<union> (\<Union>x\<in>set xs. set x)"
  by (induction sep xs rule: join.induct) auto

lemma urlencode_no_question: "CHR ''?'' \<notin> set (urlencode q)"
proof -
  have "CHR ''?'' \<notin> set ''&'' \<union> (\<Union>x\<in>set (map (\<lambda>kv. quote_plus (fst kv) @ ''='' @ quote_plus (py_str (snd kv))) q). set x)"
    by (auto simp: quote_plus_no_question)
  with set_join [of "''&''"] show ?thesis
    unfolding urlencode_def by blast
qed

lemma join_middle:
  "join sep (as @ b # cs) =
     (if as = [] then [] else join sep as @ sep) @ b @ (if cs = [] then [] else sep @ join sep cs)"
proof (induction sep as rule: join.induct)
  case (1 sep)
  then show ?case by (cases cs) simp_all
next
  case (2 sep x)
  then show ?case by (cases cs) simp_all
next
  case (3 sep x y ys)
  then show ?case by simp
qed

lemma urlencode_middle:
  "urlencode (xs @ (k, v) # ys) =
     ((if xs = [] then [] else urlencode xs @ ''&'') @ quote_plus k @ ''='')
     @ quote_plus (py_str v)
     @ (if ys = [] then [] else ''&'' @ urlencode ys)"
  by (simp add: urlencode_def join_middle)

lemma update_present:
  "map_of q k = Some v \<Longrightarrow>
     \<exists>xs ys. q = xs @ (k, v) # ys \<and> AList.update k w q = xs @ (k, w) # ys"
proof (induction q)
  case Nil
  then show ?case by simp
next
  case (Cons p q)
  show ?case
  proof (cases "fst p = k")
    case True
    with Cons.prems have "p = (k, v)" by (cases p) simp
    then have "p # q = [] @ (k, v) # q \<and> AList.update k w (p # q) = [] @ (k, w) # q" by simp
    then show ?thesis by blast
  next
    case False
    with Cons.prems have "map_of q k = Some v" by (cases p) simp
    from Cons.IH [OF this] obtain xs ys where "q = xs @ (k, v) # ys" "AList.update k w q = xs @ (k, w) # ys"
      by blast
    with False have "p # q = (p # xs) @ (k, v) # ys \<and> AList.update k w (p # q) = (p # xs) @ (k, w) # ys"
      by (cases p) simp
    then show ?thesis by blast
  qed
qed

lemma roa_params_nonempty:
  assumes "req_query_params (roa_request self) \<noteq> []"
  shows "roa_params self =
     (if \<not> endswith (roa_uri self) ''?'' then roa_uri self @ ''?'' else roa_uri self)
     @ urlencode (req_query_params (roa_request self))"
proof -
  obtain kv rest where q: "req_query_params (roa_request self) = [] @ kv # rest"
    using assms by (cases "req_query_params (roa_request self)") auto
  have ne: "urlencode (req_query_params (roa_request self)) \<noteq> []"
    unfolding q using urlencode_middle [of "[]" "fst kv" "snd kv" rest] by simp
  have "last (p @ urlencode (req_query_params (roa_request self))) \<noteq> CHR ''?''" for p
    using ne urlencode_no_question [of "req_query_params (roa_request self)"]
    by (metis last_appendR last_in_set)
  then have "\<not> endswith (p @ urlencode (req_query_params (roa_request self))) ''?''" for p
    by (simp add: endswith_nonempty)
  then show ?thesis
    by (simp add: roa_params_def Let_def)
qed

lemma roa_params_changes:
  assumes u: "roa_uri after = roa_uri self"
    and qa: "req_query_params (roa_request after) = AList.update frag VNone (req_query_params (roa_request self))"
  shows "roa_params after = roa_params self \<longleftrightarrow>
         (\<exists>v. map_of (req_query_params (roa_request self)) frag = Some v \<and> py_str v = ''None'')"
proof (cases "map_of (req_query_params (roa_request self)) frag")
  case None
  then have n: "frag \<notin> fst ` set (req_query_params (roa_request self))"
    by (simp add: map_of_eq_None_iff)
  have qs: "req_query_params (roa_request after) = req_query_params (roa_request self) @ [(frag, VNone)]"
    unfolding qa by (rule update_absent [OF n])
  have "length (roa_params self) < length (roa_params after)"
    using roa_params_length [of self]
    unfolding roa_params_after [OF qs] u
    by (auto simp: urlencode_Nil split: if_splits)
  with None show ?thesis by auto
next
  case (Some v)
  from update_present [OF Some, of VNone] obtain xs ys
    where q: "req_query_params (roa_request self) = xs @ (frag, v) # ys"
      and q': "AList.update frag VNone (req_query_params (roa_request self)) = xs @ (frag, VNone) # ys"
    by blast
  have p: "roa_params self =
     (if \<not> endswith (roa_uri self) ''?'' then roa_uri self @ ''?'' else roa_uri self)
     @ urlencode (xs @ (frag, v) # ys)"
    using roa_params_nonempty [of self] q by simp
  have p': "roa_params after =
     (if \<not> endswith (roa_uri self) ''?'' then roa_uri self @ ''?'' else roa_uri self)
     @ urlencode (xs @ (frag, VNone) # ys)"
    using roa_params_nonempty [of after] qa q' u by simp
  have "roa_params after = roa_params self \<longleftrightarrow> quote_plus (py_str v) = ''None''"
    unfolding p p' urlencode_middle by (auto simp: quote_plus_None)
  with Some show ?thesis by (simp add: quote_plus_is_None)
qed

text \<open>
  C10, as the code has it. Evaluating the property \<open>signature\<close> of a ROA signer writes
  \<open>Date\<close>, \<open>Accept\<close>, \<open>x-acs-signature-method\<close> and \<open>x-acs-signature-version\<close> into
  \<open>self._headers\<close>, the mapping that the property \<open>headers\<close> returns with
  \<open>Authorization\<close> added. When the URI has a query fragment, the fragment is afterwards
  a key of the request's query parameters, with a null value; and the property \<open>params\<close>
  returns a different string after the evaluation than before it, except in one case, where
  it returns the same string: when the query parameters already held the fragment as a key
  with a value that is null or is printed as \<open>None\<close>.
\<close>

theorem roa_signature_writes:
  "(let after = snd (roa_signature h date self)
    in map_of (roa_headers after) ''Date'' = Some date
     \<and> map_of (roa_headers after) ''Accept'' = Some (map_format_to_accept h ''JSON'')
     \<and> map_of (roa_headers after) ''x-acs-signature-method'' = Some (signer_name (roa_signer self))
     \<and> map_of (roa_headers after) ''x-acs-signature-version'' = Some (signer_version (roa_signer self))
     \<and> fst (roa_headers_property h date self) = roa_headers (snd (roa_headers_property h date self))
     \<and> fst (roa_headers_property h date self) =
         AList.update ''Authorization''
           (''acs '' @ str_opt (access_key_id (roa_credentials self)) @ '':'' @
            sign_string (roa_signer self) (fst (roa_signature h date self))
              (access_key_secret (roa_credentials self)))
           (roa_headers after)
     \<and> (roa_uri self = path @ ''?'' @ frag \<and> CHR ''?'' \<notin> set frag \<longrightarrow>
          map_of (req_query_params (roa_request after)) frag = Some VNone
          \<and> (roa_params after = roa_params self \<longleftrightarrow>
               (\<exists>v. map_of (req_query_params (roa_request self)) frag = Some v
                    \<and> py_str v = ''None''))))"
proof -
  define after where "after = snd (roa_signature h date self)"
  have hd: "map_of (roa_headers after) ''Date'' = Some date"
    "map_of (roa_headers after) ''Accept'' = Some (map_format_to_accept h ''JSON'')"
    "map_of (roa_headers after) ''x-acs-signature-method'' = Some (signer_name (roa_signer self))"
    "map_of (roa_headers after) ''x-acs-signature-version'' = Some (signer_version (roa_signer self))"
    unfolding after_def roa_signature_state by (rule refresh_sign_parameters_headers)+
  have hp: "fst (roa_headers_property h date self) = roa_headers (snd (roa_headers_property h date self))"
    by (simp add: roa_headers_property_def Let_def)
  have ha: "fst (roa_headers_property h date self) =
         AList.update ''Authorization''
           (''acs '' @ str_opt (access_key_id (roa_credentials self)) @ '':'' @
            sign_string (roa_signer self) (fst (roa_signature h date self))
              (access_key_secret (roa_credentials self)))
           (roa_headers after)"
    unfolding after_def
    by (simp add: roa_headers_property_def Let_def roa_signature_state)
  have q: "map_of (req_query_params (roa_request after)) frag = Some VNone
          \<and> (roa_params after = roa_params self \<longleftrightarrow>
               (\<exists>v. map_of (req_query_params (roa_request self)) frag = Some v
                    \<and> py_str v = ''None''))"
    if u: "roa_uri self = path @ ''?'' @ frag" and f: "CHR ''?'' \<notin> set frag"
  proof -
    have r: "rsplit1 (roa_uri self) CHR ''?'' = [path, frag]"
      using rsplit1_last [OF f, of path] u by simp
    have qa: "req_query_params (roa_request after) =
                AList.update frag VNone (req_query_params (roa_request self))"
      unfolding after_def roa_signature_state build_canonical_resource_queries r by simp
    have m: "map_of (req_query_params (roa_request after)) frag = Some VNone"
      unfolding qa by (simp add: update_conv')
    have ua: "roa_uri after = roa_uri self"
      unfolding after_def by (rule roa_signature_state)
    from m roa_params_changes [OF ua qa] show ?thesis by blast
  qed
  from hd hp ha q show ?thesis
    unfolding Let_def after_def [symmetric] by blast
qed

theorem roa_signature_writes_witness:
  "roa_uri (example_roa clusters_request) = ''/clusters/c-42'' @ ''?'' @ ''detail''
   \<and> map_of (roa_headers signed_roa) ''Date'' = Some ''Tue, 15 Dec 2015 00:00:00 GMT''
   \<and> map_of (req_query_params (roa_request (example_roa clusters_request))) ''detail'' = None
   \<and> map_of (req_query_params (roa_request signed_roa)) ''detail'' = Some VNone
   \<and> roa_params signed_roa \<noteq> roa_params (example_roa clusters_request)
   \<and> map_of (req_query_params (roa_request (example_roa clusters_request_full))) ''detail''
       = Some (VStr ''full'')
   \<and> roa_params (snd (roa_signature stub_helpers ''Tue, 15 Dec 2015 00:00:00 GMT''
                        (example_roa clusters_request_full)))
       \<noteq> roa_params (example_roa clusters_request_full)"
proof -
  have u: "roa_uri (example_roa clusters_request) = ''/clusters/c-42'' @ ''?'' @ ''detail''"
    "roa_uri (example_roa clusters_request_full) = ''/clusters/c-42'' @ ''?'' @ ''detail''"
    by code_simp+
  have f: "CHR ''?'' \<notin> set ''detail''" by code_simp
  have n: "map_of (req_query_params (roa_request (example_roa clusters_request))) ''detail'' = None"
    by code_simp
  have v: "map_of (req_query_params (roa_request (example_roa clusters_request_full))) ''detail''
       = Some (VStr ''full'')"
    by code_simp
  have p: "py_str (VStr ''full'') \<noteq> ''None''" by code_simp
  from roa_signature_writes [of stub_helpers "''Tue, 15 Dec 2015 00:00:00 GMT''"
      "example_roa clusters_request" "''/clusters/c-42''" "''detail''"] u(1) f n
  have a: "map_of (roa_headers signed_roa) ''Date'' = Some ''Tue, 15 Dec 2015 00:00:00 GMT''
      \<and> map_of (req_query_params (roa_request signed_roa)) ''detail'' = Some VNone
      \<and> roa_params signed_roa \<noteq> roa_params (example_roa clusters_request)"
    unfolding Let_def signed_roa_def [symmetric] by simp
  from roa_signature_writes [of stub_helpers "''Tue, 15 Dec 2015 00:00:00 GMT''"
      "example_roa clusters_request_full" "''/clusters/c-42''" "''detail''"] u(2) f v p
  have b: "roa_params (snd (roa_signature stub_helpers ''Tue, 15 Dec 2015 00:00:00 GMT''
                        (example_roa clusters_request_full)))
       \<noteq> roa_params (example_roa clusters_request_full)"
    unfolding Let_def by simp
  from u(1) n v a b show ?thesis by blast
qed

text \<open>
  C10 as stated fails: for a newly built signer whose request holds the fragment as a key
  with a null value, or with the string \<open>None\<close>, evaluating the signature leaves what
  \<open>params\<close> returns unchanged, although the URI contains \<open>?\<close>.
\<close>

theorem params_unchanged_when_fragment_present:
  "CHR ''?'' \<in> set (roa_uri (example_roa clusters_request_null))
   \<and> roa_params (example_roa clusters_request_null) = ''/clusters/c-42?detail?size=10&detail=None''
   \<and> roa_params (snd (roa_signature stub_helpers ''Tue, 15 Dec 2015 00:00:00 GMT''
                        (example_roa clusters_request_null)))
       = ''/clusters/c-42?detail?size=10&detail=None''
   \<and> CHR ''?'' \<in> set (roa_uri (example_roa clusters_request_printed))
   \<and> roa_params (example_roa clusters_request_printed) = ''/clusters/c-42?detail?detail=None&size=10''
   \<and> roa_params (snd (roa_signature stub_helpers ''Tue, 15 Dec 2015 00:00:00 GMT''
                        (example_roa clusters_request_printed)))
       = ''/clusters/c-42?detail?detail=None&size=10''"
  by code_simp

subsection \<open>Repeated evaluation\<close>

lemma merged_parameters_dict_update:
  "merged_parameters self =
     dict_update
       (req_body_params (rpc_request self)
        @ (case security_token (rpc_credentials self) of
             None \<Rightarrow> [] | Some t \<Rightarrow> [(''SecurityToken'', VStr t)])
        @ (case bearer_token (rpc_credentials self) of
             None \<Rightarrow> [] | Some t \<Rightarrow> [(''BearerToken'', VStr t)]))
       (parameters self)"
  by (simp add: merged_parameters_def Let_def dict_update_append dict_update_Nil dict_update_Cons
        split: option.splits)

lemma merged_parameters_idem:
  assumes "distinct (map fst (parameters self))"
  shows "merged_parameters (self\<lparr>parameters := merged_parameters self\<rparr>) = merged_parameters self"
  unfolding merged_parameters_dict_update [of "self\<lparr>parameters := merged_parameters self\<rparr>"]
  unfolding merged_parameters_dict_update [of self]
  using dict_update_idem [OF assms] by simp

lemma rpc_signature_idem:
  assumes "distinct (map fst (parameters self))"
  shows "rpc_signature (snd (rpc_signature self)) = rpc_signature self"
  using merged_parameters_idem [OF assms]
  by (simp add: rpc_signature_def Let_def)

lemma refresh_sign_parameters_idem:
  "refresh_sign_parameters h date (refresh_sign_parameters h date self) = refresh_sign_parameters h date self"
proof -
  have s: "roa_signer (refresh_sign_parameters h date self) = roa_signer self"
    by (simp add: refresh_sign_parameters_def Let_def)
  define H where "H = roa_headers (refresh_sign_parameters h date self)"
  have m: "map_of H ''Date'' = Some date"
    "map_of H ''Accept'' = Some (map_format_to_accept h ''JSON'')"
    "map_of H ''x-acs-signature-method'' = Some (signer_name (roa_signer self))"
    "map_of H ''x-acs-signature-version'' = Some (signer_version (roa_signer self))"
    unfolding H_def by (rule refresh_sign_parameters_headers)+
  have "roa_headers (refresh_sign_parameters h date (refresh_sign_parameters h date self)) = H"
    unfolding refresh_sign_parameters_def [of h date "refresh_sign_parameters h date self"] Let_def
      H_def [symmetric] s
    by (simp add: update_triv m)
  then show ?thesis
    unfolding H_def
    by (simp add: refresh_sign_parameters_def [of h date "refresh_sign_parameters h date self"] Let_def)
qed

lemma refresh_sign_parameters_request:
  "refresh_sign_parameters h date (self\<lparr>roa_request := r\<rparr>) = (refresh_sign_parameters h date self)\<lparr>roa_request := r\<rparr>"
  by (simp add: refresh_sign_parameters_def Let_def)

lemma build_canonical_resource_idem:
  "build_canonical_resource uri (fst (build_canonical_resource uri queries)) = build_canonical_resource uri queries"
  by (simp add: build_canonical_resource_def Let_def)

lemma roa_signature_idem:
  "roa_signature h date (snd (roa_signature h date self)) = roa_signature h date self"
proof -
  define self1 where "self1 = refresh_sign_parameters h date self"
  define res where "res = build_canonical_resource (roa_uri self1) (req_query_params (roa_request self1))"
  define self2 where "self2 = self1\<lparr>roa_request := (roa_request self1)\<lparr>req_query_params := fst res\<rparr>\<rparr>"
  have a: "snd (roa_signature h date self) = self2"
    by (simp add: roa_signature_def Let_def self1_def res_def self2_def)
  have r: "refresh_sign_parameters h date self2 = self2"
    unfolding self2_def refresh_sign_parameters_request
    unfolding self1_def refresh_sign_parameters_idem ..
  have b: "build_canonical_resource (roa_uri self2) (req_query_params (roa_request self2)) = res"
    unfolding self2_def res_def by (simp add: build_canonical_resource_idem)
  have c: "self2\<lparr>roa_request := (roa_request self2)\<lparr>req_query_params := fst res\<rparr>\<rparr> = self2"
    unfolding self2_def by simp
  have "roa_signature h date self2 = roa_signature h date self"
    unfolding roa_signature_def [of h date self2] Let_def r b c
    unfolding roa_signature_def [of h date self] Let_def self1_def [symmetric] res_def [symmetric]
    by (simp add: self2_def)
  with a show ?thesis by simp
qed

lemma canonical_headers_fold_skip:
  assumes "\<not> contains (lower k) b"
  shows "fold (\<lambda>kv m. if contains (lower (fst kv)) b then AList.update (lower (fst kv)) (snd kv) m else m)
           (AList.update k v hs) acc
       = fold (\<lambda>kv m. if contains (lower (fst kv)) b then AList.update (lower (fst kv)) (snd kv) m else m)
           hs acc"
  using assms by (induction hs arbitrary: acc) auto

lemma build_canonical_headers_skip:
  "\<not> contains (lower k) b \<Longrightarrow> build_canonical_headers (AList.update k v hs) b = build_canonical_headers hs b"
  by (simp add: build_canonical_headers_def canonical_headers_fold_skip)

lemma authorization_not_vendor: "\<not> contains (lower ''Authorization'') ''x-acs-''"
  by code_simp

lemma refresh_sign_parameters_authorization:
  assumes "refresh_sign_parameters h date self = self"
  shows "refresh_sign_parameters h date (self\<lparr>roa_headers := AList.update ''Authorization'' a (roa_headers self)\<rparr>)
         = self\<lparr>roa_headers := AList.update ''Authorization'' a (roa_headers self)\<rparr>"
proof -
  define H where "H = roa_headers self"
  have m: "map_of H ''Date'' = Some date"
    "map_of H ''Accept'' = Some (map_format_to_accept h ''JSON'')"
    "map_of H ''x-acs-signature-method'' = Some (signer_name (roa_signer self))"
    "map_of H ''x-acs-signature-version'' = Some (signer_version (roa_signer self))"
    unfolding H_def using refresh_sign_parameters_headers [of h date self] assms by simp_all
  show ?thesis
    unfolding refresh_sign_parameters_def Let_def
    by (simp add: H_def [symmetric] update_triv update_conv' m)
qed

lemma roa_signature_authorization:
  assumes "roa_signature h date self = (s, self)"
  shows "roa_signature h date (self\<lparr>roa_headers := AList.update ''Authorization'' a (roa_headers self)\<rparr>)
         = (s, self\<lparr>roa_headers := AList.update ''Authorization'' a (roa_headers self)\<rparr>)"
proof -
  define A where "A = self\<lparr>roa_headers := AList.update ''Authorization'' a (roa_headers self)\<rparr>"
  from assms have e: "snd (roa_signature h date self) = self" by simp
  have hh: "roa_headers (refresh_sign_parameters h date self) = roa_headers self"
    using roa_signature_state(1) [of h date self] e by simp
  have "refresh_sign_parameters h date self
          = self\<lparr>roa_headers := roa_headers (refresh_sign_parameters h date self)\<rparr>"
    by (simp add: refresh_sign_parameters_def Let_def)
  with hh have r: "refresh_sign_parameters h date self = self" by simp
  have q: "fst (build_canonical_resource (roa_uri self) (req_query_params (roa_request self)))
              = req_query_params (roa_request self)"
    using roa_signature_state(5) [of h date self] e by simp
  have rA: "refresh_sign_parameters h date A = A"
    unfolding A_def by (rule refresh_sign_parameters_authorization [OF r])
  have i: "map_of (roa_headers A) ih = map_of (roa_headers self) ih" if "ih \<in> set interesting_headers" for ih
    using that unfolding A_def by (auto simp: update_conv' interesting_headers_def)
  have ii: "map (\<lambda>ih. (case map_of (roa_headers A) ih of None \<Rightarrow> [] | Some v \<Rightarrow> v) @ [CHR 0x0A]) interesting_headers
          = map (\<lambda>ih. (case map_of (roa_headers self) ih of None \<Rightarrow> [] | Some v \<Rightarrow> v) @ [CHR 0x0A]) interesting_headers"
    using i by simp
  have c: "build_canonical_headers (roa_headers A) ''x-acs-'' = build_canonical_headers (roa_headers self) ''x-acs-''"
    unfolding A_def using build_canonical_headers_skip [OF authorization_not_vendor] by simp
  have f: "roa_uri A = roa_uri self" "roa_request A = roa_request self"
    unfolding A_def by simp_all
  have "fst (roa_signature h date A) = fst (roa_signature h date self)"
    unfolding roa_signature_def Let_def rA r ii c f by simp
  moreover have "snd (roa_signature h date A) = A"
    unfolding roa_signature_def Let_def rA f using q by (simp add: A_def)
  ultimately show ?thesis
    using assms unfolding A_def [symmetric] by (simp add: prod_eq_iff)
qed

lemma roa_headers_property_idem:
  "roa_headers_property h date (snd (roa_headers_property h date self)) = roa_headers_property h date self"
proof -
  obtain s self2 where sg: "roa_signature h date self = (s, self2)" by (cases "roa_signature h date self")
  from roa_signature_idem [of h date self] sg have fx: "roa_signature h date self2 = (s, self2)"
    by simp
  define a where "a = ''acs '' @ str_opt (access_key_id (roa_credentials self2)) @ '':'' @
                       sign_string (roa_signer self2) s (access_key_secret (roa_credentials self2))"
  define A where "A = self2\<lparr>roa_headers := AList.update ''Authorization'' a (roa_headers self2)\<rparr>"
  have p1: "roa_headers_property h date self = (roa_headers A, A)"
    by (simp add: roa_headers_property_def Let_def sg a_def A_def)
  have sA: "roa_signature h date A = (s, A)"
    unfolding A_def by (rule roa_signature_authorization [OF fx])
  have "roa_headers_property h date A = (roa_headers A, A)"
    unfolding roa_headers_property_def Let_def sA
    by (simp add: A_def a_def)
  with p1 show ?thesis by simp
qed

text \<open>
  C4, as the code has it. The timestamp and the nonce that \<open>RPCSigner.__init__\<close> reads
  and the date that the ROA \<open>signature\<close> reads are inputs of the canonical string beside
  the request, the credentials, the region id and the version. With them fixed, a second
  evaluation repeats the first: the RPC property \<open>signature\<close> returns the same canonical
  string and leaves the same signer (for a parameter dict with distinct keys), and so do
  the ROA properties \<open>signature\<close> and \<open>headers\<close> when the clock reads the same date.
\<close>

theorem canonical_string_repeatable:
  "(distinct (map fst (parameters rpc)) \<longrightarrow> rpc_signature (snd (rpc_signature rpc)) = rpc_signature rpc)
   \<and> roa_signature h date (snd (roa_signature h date roa)) = roa_signature h date roa
   \<and> roa_headers_property h date (snd (roa_headers_property h date roa)) = roa_headers_property h date roa"
  using rpc_signature_idem [of rpc] roa_signature_idem [of h date roa]
    roa_headers_property_idem [of h date roa]
  by blast

theorem canonical_string_repeatable_witness:
  "distinct (map fst (parameters (example_rpc ''nonce-1'')))
   \<and> rpc_signature (snd (rpc_signature (example_rpc ''nonce-1''))) = rpc_signature (example_rpc ''nonce-1'')"
proof -
  have d: "distinct (map fst (parameters (example_rpc ''nonce-1'')))" by code_simp
  from canonical_string_repeatable [of "example_rpc ''nonce-1''"] d show ?thesis by blast
qed

text \<open>
  C4 as stated fails: for one request, one set of credentials, one region id and one
  version, two RPC signers that drew different nonces, and two evaluations of a ROA
  signature at different clock readings, give different canonical strings.
\<close>

theorem canonical_string_depends_on_nonce_and_clock:
  "fst (rpc_signature (example_rpc ''nonce-1'')) \<noteq> fst (rpc_signature (example_rpc ''nonce-2''))
   \<and> fst (roa_signature stub_helpers ''Tue, 15 Dec 2015 00:00:00 GMT'' (example_roa clusters_request))
       \<noteq> fst (roa_signature stub_helpers ''Tue, 15 Dec 2015 00:00:01 GMT'' (example_roa clusters_request))"
  by code_simp

end
